theory Spec2Isabelle
  imports Complex_Main "HOL-Library.Word"
begin

section \<open>DroQ-SAC training step (\<^verbatim>\<open>sbx/droq_sac/droq.py\<close>)\<close>

text \<open>
  The development embeds the class \<^verbatim>\<open>DroQ_SAC\<close>: its constructor, the static method
  \<^verbatim>\<open>update_actor\<close> and the static method \<^verbatim>\<open>_train\<close> (here \<open>train\<close>, since an
  identifier cannot start with an underscore).

  Conventions of the embedding.
  \<^item> A numpy/JAX array is the list of its rows along axis 0. An array of shape \<open>(B, 1)\<close>
    is a \<open>real list\<close> of length \<open>B\<close>; the output of the critic ensemble, of shape
    \<open>(E, B, 1)\<close>, is the list of its \<open>E\<close> members, each a \<open>real list\<close> of length \<open>B\<close>.
  \<^item> Floating-point numbers are idealised as \<open>real\<close>. The mean of an empty array is
    \<open>nan\<close> in JAX and \<open>0\<close> here, so statements about means assume non-empty arrays.
  \<^item> Python integers are \<open>int\<close>. \<^verbatim>\<open>_train\<close> is compiled by \<^verbatim>\<open>jax.jit\<close>, and \<open>n_updates\<close> is
    not among its static arguments: \<^verbatim>\<open>jax.jit\<close> refuses a Python integer outside the range
    of a signed 32-bit integer, and inside \<^verbatim>\<open>_train\<close> the counter is a signed 32-bit
    integer whose addition wraps around. It is a \<open>32 word\<close>, read as a signed number by
    \<open>sint\<close>. The static argument \<open>gradient_steps\<close> stays a Python integer. Apart from this,
    \<^verbatim>\<open>jax.jit\<close> is taken to preserve the meaning of the Python body it decorates.
  \<^item> An exception is a value \<open>Inl e\<close> of a sum type.
  \<^item> Code that the file calls but does not define is a parameter: the network modules
    \<open>actor\<close>, \<open>qf\<close>, \<open>ent_coef\<close> (given by their \<^verbatim>\<open>apply\<close> functions), the JAX and flax
    primitives (record \<open>jax\<close>), the methods inherited from \<^verbatim>\<open>SAC\<close> (record \<open>SAC\<close>) and
    the parent constructor.
  \<^item> \<open>train\<close> returns, next to its outcome, the log of the calls it made to the four
    update functions, in program order.
  \<^item> \<open>train\<close> is \<^verbatim>\<open>_train\<close> on methods of \<^verbatim>\<open>SAC\<close> that return; \<open>train_raising\<close> is \<^verbatim>\<open>_train\<close>
    on methods of \<^verbatim>\<open>SAC\<close> that may raise. The two agree where both apply.
\<close>

subsection \<open>Exceptions\<close>

datatype error =
    AssertionError
  | UnboundLocalError
  | ZeroDivisionError
  | BroadcastError
  | TypeError
  | OverflowError
  | Raised string

subsection \<open>Data\<close>

text \<open>\<^verbatim>\<open>ReplayBufferSamplesNp\<close>: five arrays, rows along axis 0.\<close>

record 'x ReplayBufferSamplesNp =
  observations :: "'x list"
  actions :: "'x list"
  next_observations :: "'x list"
  dones :: "'x list"
  rewards :: "'x list"

text \<open>
  flax's \<^verbatim>\<open>TrainState\<close> and its extension \<^verbatim>\<open>RLTrainState\<close>. The static fields
  \<^verbatim>\<open>apply_fn\<close> and \<^verbatim>\<open>tx\<close> are not part of the value that changes and are left out;
  \<open>opt_step\<close> is the field \<^verbatim>\<open>step\<close>.
\<close>

record ('p, 's) TrainState =
  opt_step :: int
  params :: 'p
  opt_state :: 's

record ('p, 's) RLTrainState = "('p, 's) TrainState" +
  target_params :: 'p

text \<open>The object returned by \<^verbatim>\<open>actor.apply\<close>: a distribution with two methods.\<close>

record ('x, 'k) distribution =
  sample :: "'k \<Rightarrow> 'x list"
  log_prob :: "'x list \<Rightarrow> real list"

type_synonym ('p, 'x, 'k) actor_module = "'p \<Rightarrow> 'x list \<Rightarrow> ('x, 'k) distribution"
type_synonym ('p, 'x, 'k) qf_module = "'p \<Rightarrow> 'x list \<Rightarrow> 'x list \<Rightarrow> 'k \<Rightarrow> real list list"
type_synonym 'p ent_coef_module = "'p \<Rightarrow> real"

text \<open>
  The JAX and flax primitives used by \<^verbatim>\<open>update_actor\<close>:
  \<open>random_split3\<close> is \<^verbatim>\<open>jax.random.split(key, 3)\<close> unpacked into its three keys,
  \<open>grad f p\<close> is the gradient at \<open>p\<close> of the first component of \<open>f\<close>
  (the gradient part of \<^verbatim>\<open>jax.value_and_grad(f, has_aux=True)(p)\<close>),
  \<open>apply_gradients\<close> is the method of \<^verbatim>\<open>TrainState\<close>.
\<close>

record ('p, 's, 'k) jax =
  random_split3 :: "'k \<Rightarrow> 'k \<times> 'k \<times> 'k"
  grad :: "('p \<Rightarrow> error + real \<times> real) \<Rightarrow> 'p \<Rightarrow> 'p"
  apply_gradients :: "('p, 's) TrainState \<Rightarrow> 'p \<Rightarrow> ('p, 's) TrainState"

text \<open>The static methods of the parent class \<^verbatim>\<open>SAC\<close> that \<^verbatim>\<open>_train\<close> calls.\<close>

record ('p, 's, 'x, 'k) SAC =
  update_critic ::
    "('p, 'x, 'k) actor_module \<Rightarrow> ('p, 'x, 'k) qf_module \<Rightarrow> 'p ent_coef_module \<Rightarrow> real \<Rightarrow>
     ('p, 's) TrainState \<Rightarrow> ('p, 's) RLTrainState \<Rightarrow> ('p, 's) TrainState \<Rightarrow>
     'x list \<Rightarrow> 'x list \<Rightarrow> 'x list \<Rightarrow> 'x list \<Rightarrow> 'x list \<Rightarrow> 'k \<Rightarrow>
     ('p, 's) RLTrainState \<times> (real \<times> real) \<times> 'k"
  soft_update :: "real \<Rightarrow> ('p, 's) RLTrainState \<Rightarrow> ('p, 's) RLTrainState"
  update_temperature ::
    "'p ent_coef_module \<Rightarrow> real \<Rightarrow> ('p, 's) TrainState \<Rightarrow> real \<Rightarrow> ('p, 's) TrainState \<times> real"

subsection \<open>The call log\<close>

text \<open>
  One entry per call of an update function, with the arguments that are values
  (the static modules are left out).
\<close>

datatype ('p, 's, 'x, 'k) call =
    Update_critic real "('p, 's) TrainState" "('p, 's) RLTrainState" "('p, 's) TrainState"
      "'x list" "'x list" "'x list" "'x list" "'x list" 'k
  | Soft_update real "('p, 's) RLTrainState"
  | Update_actor "('p, 's) TrainState" "('p, 's) RLTrainState" "('p, 's) TrainState" "'x list" 'k
  | Update_temperature real "('p, 's) TrainState" real

type_synonym ('c, 'a) logged = "'c list \<times> (error + 'a)"

definition return :: "'a \<Rightarrow> ('c, 'a) logged" where
  "return v = ([], Inr v)"

definition raise :: "error \<Rightarrow> ('c, 'a) logged" where
  "raise e = ([], Inl e)"

definition lift :: "error + 'a \<Rightarrow> ('c, 'a) logged" where
  "lift r = ([], r)"

definition logged_call :: "'c \<Rightarrow> error + 'a \<Rightarrow> ('c, 'a) logged" where
  "logged_call c r = ([c], r)"

definition bind :: "('c, 'a) logged \<Rightarrow> ('a \<Rightarrow> ('c, 'b) logged) \<Rightarrow> ('c, 'b) logged" where
  "bind m f =
     (case m of
        (cs, Inl e) \<Rightarrow> (cs, Inl e)
      | (cs, Inr v) \<Rightarrow> (case f v of (cs', r) \<Rightarrow> (cs @ cs', r)))"

subsection \<open>Array primitives\<close>

text \<open>Python's \<^verbatim>\<open>x[a:b]\<close> on axis 0: negative bounds count from the end, all bounds are clipped.\<close>

definition py_slice :: "'x list \<Rightarrow> int \<Rightarrow> int \<Rightarrow> 'x list" where
  "py_slice x a b =
     (let n = int (length x);
          clip = (\<lambda>i. if i < 0 then max 0 (i + n) else min i n);
          lo = clip a;
          hi = clip b
      in take (nat (hi - lo)) (drop (nat lo) x))"

text \<open>\<^verbatim>\<open>range(n)\<close>.\<close>

definition py_range :: "int \<Rightarrow> int list" where
  "py_range n = map int [0..<nat n]"

text \<open>\<^verbatim>\<open>x.mean()\<close> of a one-column array.\<close>

definition jnp_mean :: "real list \<Rightarrow> real" where
  "jnp_mean xs = sum_list xs / real (length xs)"

text \<open>\<^verbatim>\<open>jnp.mean(q, axis=0)\<close> of an array of shape \<open>(E, B, 1)\<close>: one mean per batch row.\<close>

definition jnp_mean_axis0 :: "real list list \<Rightarrow> real list" where
  "jnp_mean_axis0 q = map jnp_mean (transpose q)"

text \<open>
  An elementwise binary operation on two arrays of shapes \<open>(B, 1)\<close> and \<open>(B', 1)\<close>, with
  numpy's broadcasting along axis 0: equal lengths, or one of the lengths is 1.
\<close>

definition broadcast2 :: "(real \<Rightarrow> real \<Rightarrow> real) \<Rightarrow> real list \<Rightarrow> real list \<Rightarrow> error + real list" where
  "broadcast2 f xs ys =
     (if length xs = length ys then Inr (map2 f xs ys)
      else if length xs = 1 then Inr (map (f (hd xs)) ys)
      else if length ys = 1 then Inr (map (\<lambda>x. f x (hd ys)) xs)
      else Inl BroadcastError)"

subsection \<open>\<^verbatim>\<open>DroQ_SAC.update_actor\<close>\<close>

text \<open>The inner function \<^verbatim>\<open>actor_loss(params)\<close>, with the variables it closes over.\<close>

definition actor_loss ::
  "('p, 'x, 'k) actor_module \<Rightarrow> ('p, 'x, 'k) qf_module \<Rightarrow> 'p ent_coef_module \<Rightarrow>
   ('p, 's) RLTrainState \<Rightarrow> ('p, 's) TrainState \<Rightarrow> 'x list \<Rightarrow> 'k \<Rightarrow> 'k \<Rightarrow>
   'p \<Rightarrow> error + real \<times> real" where
  "actor_loss actor qf ent_coef qf_state ent_coef_state obs dropout_key noise_key ps =
     (let dist = actor ps obs;
          actor_actions = sample dist noise_key;
          lp = log_prob dist actor_actions;
          qf_pi = qf (params qf_state) obs actor_actions dropout_key;
          min_qf_pi = jnp_mean_axis0 qf_pi;
          ent_coef_value = ent_coef (params ent_coef_state)
      in case broadcast2 (-) (map ((*) ent_coef_value) lp) min_qf_pi of
           Inl e \<Rightarrow> Inl e
         | Inr d \<Rightarrow> Inr (jnp_mean d, - jnp_mean lp))"

definition update_actor ::
  "('p, 's, 'k) jax \<Rightarrow>
   ('p, 'x, 'k) actor_module \<Rightarrow> ('p, 'x, 'k) qf_module \<Rightarrow> 'p ent_coef_module \<Rightarrow>
   ('p, 's) TrainState \<Rightarrow> ('p, 's) RLTrainState \<Rightarrow> ('p, 's) TrainState \<Rightarrow> 'x list \<Rightarrow> 'k \<Rightarrow>
   error + ('p, 's) TrainState \<times> ('p, 's) RLTrainState \<times> real \<times> 'k \<times> real" where
  "update_actor lib actor qf ent_coef actor_state qf_state ent_coef_state obs key =
     (case random_split3 lib key of (key', dropout_key, noise_key) \<Rightarrow>
        let loss = actor_loss actor qf ent_coef qf_state ent_coef_state obs dropout_key noise_key
        in case loss (params actor_state) of
             Inl e \<Rightarrow> Inl e
           | Inr (actor_loss_value, entropy) \<Rightarrow>
               let grads = grad lib loss (params actor_state);
                   actor_state' = apply_gradients lib actor_state grads
               in Inr (actor_state', qf_state, actor_loss_value, key', entropy))"

subsection \<open>\<^verbatim>\<open>DroQ_SAC._train\<close>\<close>

text \<open>
  The inner function \<^verbatim>\<open>slice(x, step=i)\<close>. It closes over \<open>gradient_steps\<close>; its default
  argument \<open>step\<close> is fixed when the function is defined, in iteration \<open>i\<close> of the loop.
  The \<^verbatim>\<open>assert\<close> statement is executed (the interpreter does not run with \<^verbatim>\<open>-O\<close>).
  Python's \<^verbatim>\<open>%\<close> and \<^verbatim>\<open>//\<close> on integers are \<open>mod\<close> and \<open>div\<close> on \<open>int\<close> (both round
  towards minus infinity), except that a zero divisor raises.
\<close>

definition slice :: "int \<Rightarrow> int \<Rightarrow> 'x list \<Rightarrow> error + 'x list" where
  "slice gradient_steps i x =
     (if gradient_steps = 0 then Inl ZeroDivisionError
      else if int (length x) mod gradient_steps \<noteq> 0 then Inl AssertionError
      else let batch_size = int (length x) div gradient_steps
           in Inr (py_slice x (batch_size * i) (batch_size * (i + 1))))"

text \<open>
  The local variables of \<^verbatim>\<open>_train\<close> that the loop assigns. \<open>l_n_updates\<close> is the traced
  32-bit counter: \<^verbatim>\<open>n_updates += 1\<close> is addition modulo \<open>2^32\<close>. \<open>l_slice\<close> is the local name
  \<^verbatim>\<open>slice\<close>: unbound (\<open>None\<close>) before the first iteration, afterwards the closure defined
  last, given by the value of its default argument. \<open>l_qf_loss_value\<close> and
  \<open>l_ent_coef_value\<close> are unbound before the first iteration too.
\<close>

record ('p, 's, 'k) locals =
  l_n_updates :: "32 word"
  l_qf_state :: "('p, 's) RLTrainState"
  l_key :: 'k
  l_slice :: "int option"
  l_qf_loss_value :: "real option"
  l_ent_coef_value :: "real option"

text \<open>One iteration of the loop, for the index \<open>i\<close>.\<close>

definition cycle ::
  "('p, 's, 'x, 'k) SAC \<Rightarrow>
   ('p, 'x, 'k) actor_module \<Rightarrow> ('p, 'x, 'k) qf_module \<Rightarrow> 'p ent_coef_module \<Rightarrow>
   real \<Rightarrow> real \<Rightarrow> int \<Rightarrow> 'x ReplayBufferSamplesNp \<Rightarrow>
   ('p, 's) TrainState \<Rightarrow> ('p, 's) TrainState \<Rightarrow> int \<Rightarrow> ('p, 's, 'k) locals \<Rightarrow>
   (('p, 's, 'x, 'k) call, ('p, 's, 'k) locals) logged" where
  "cycle sac actor qf ent_coef gamma tau gradient_steps data actor_state ent_coef_state i st =
     (let n = l_n_updates st + 1;
          sl = slice gradient_steps i
      in bind (lift (sl (observations data))) (\<lambda>a1.
         bind (lift (sl (actions data))) (\<lambda>a2.
         bind (lift (sl (next_observations data))) (\<lambda>a3.
         bind (lift (sl (rewards data))) (\<lambda>a4.
         bind (lift (sl (dones data))) (\<lambda>a5.
         bind (logged_call
                 (Update_critic gamma actor_state (l_qf_state st) ent_coef_state
                    a1 a2 a3 a4 a5 (l_key st))
                 (Inr (update_critic sac actor qf ent_coef gamma actor_state (l_qf_state st)
                    ent_coef_state a1 a2 a3 a4 a5 (l_key st))))
           (\<lambda>(qf_state', (qf_loss_value, ent_coef_value), key').
         bind (logged_call (Soft_update tau qf_state') (Inr (soft_update sac tau qf_state')))
           (\<lambda>qf_state''.
         return \<lparr>l_n_updates = n, l_qf_state = qf_state'', l_key = key',
                 l_slice = Some i, l_qf_loss_value = Some qf_loss_value,
                 l_ent_coef_value = Some ent_coef_value\<rparr>))))))))"

text \<open>The loop \<^verbatim>\<open>for i in range(gradient_steps)\<close>, over the list of its indices.\<close>

fun train_loop ::
  "(int \<Rightarrow> 'st \<Rightarrow> ('c, 'st) logged) \<Rightarrow> int list \<Rightarrow> 'st \<Rightarrow> ('c, 'st) logged" where
  "train_loop body [] st = return st"
| "train_loop body (i # is) st = bind (body i st) (train_loop body is)"

definition train ::
  "('p, 's, 'k) jax \<Rightarrow> ('p, 's, 'x, 'k) SAC \<Rightarrow>
   ('p, 'x, 'k) actor_module \<Rightarrow> ('p, 'x, 'k) qf_module \<Rightarrow> 'p ent_coef_module \<Rightarrow>
   real \<Rightarrow> real \<Rightarrow> real \<Rightarrow> int \<Rightarrow> 'x ReplayBufferSamplesNp \<Rightarrow> 32 word \<Rightarrow>
   ('p, 's) RLTrainState \<Rightarrow> ('p, 's) TrainState \<Rightarrow> ('p, 's) TrainState \<Rightarrow> 'k \<Rightarrow>
   (('p, 's, 'x, 'k) call,
    32 word \<times> ('p, 's) RLTrainState \<times> ('p, 's) TrainState \<times> ('p, 's) TrainState \<times> 'k \<times>
    (real \<times> real \<times> real)) logged" where
  "train lib sac actor qf ent_coef gamma tau target_entropy gradient_steps data
     n_updates qf_state actor_state ent_coef_state key =
     bind (train_loop
             (cycle sac actor qf ent_coef gamma tau gradient_steps data actor_state ent_coef_state)
             (py_range gradient_steps)
             \<lparr>l_n_updates = n_updates, l_qf_state = qf_state, l_key = key,
              l_slice = None, l_qf_loss_value = None, l_ent_coef_value = None\<rparr>)
       (\<lambda>st.
     case l_slice st of
       None \<Rightarrow> raise UnboundLocalError
     | Some i \<Rightarrow>
         bind (lift (slice gradient_steps i (observations data))) (\<lambda>a1.
         bind (logged_call
                 (Update_actor actor_state (l_qf_state st) ent_coef_state a1 (l_key st))
                 (update_actor lib actor qf ent_coef actor_state (l_qf_state st)
                    ent_coef_state a1 (l_key st)))
           (\<lambda>(actor_state', qf_state', actor_loss_value, key', entropy).
         bind (logged_call
                 (Update_temperature target_entropy ent_coef_state entropy)
                 (Inr (update_temperature sac ent_coef target_entropy ent_coef_state entropy)))
           (\<lambda>(ent_coef_state', _).
         case (l_qf_loss_value st, l_ent_coef_value st) of
           (Some qf_loss_value, Some ent_coef_value) \<Rightarrow>
             return (l_n_updates st, qf_state', actor_state', ent_coef_state', key',
                     (actor_loss_value, qf_loss_value, ent_coef_value))
         | _ \<Rightarrow> raise UnboundLocalError))))"

subsection \<open>\<^verbatim>\<open>DroQ_SAC._train\<close> on methods of \<^verbatim>\<open>SAC\<close> that may raise\<close>

text \<open>
  The three static methods of \<^verbatim>\<open>SAC\<close> again, this time with the exceptions they may
  raise as values. \<open>returning\<close> makes methods that return into methods of this kind.
\<close>

record ('p, 's, 'x, 'k) SAC_raising =
  update_critic_raising ::
    "('p, 'x, 'k) actor_module \<Rightarrow> ('p, 'x, 'k) qf_module \<Rightarrow> 'p ent_coef_module \<Rightarrow> real \<Rightarrow>
     ('p, 's) TrainState \<Rightarrow> ('p, 's) RLTrainState \<Rightarrow> ('p, 's) TrainState \<Rightarrow>
     'x list \<Rightarrow> 'x list \<Rightarrow> 'x list \<Rightarrow> 'x list \<Rightarrow> 'x list \<Rightarrow> 'k \<Rightarrow>
     error + ('p, 's) RLTrainState \<times> (real \<times> real) \<times> 'k"
  soft_update_raising :: "real \<Rightarrow> ('p, 's) RLTrainState \<Rightarrow> error + ('p, 's) RLTrainState"
  update_temperature_raising ::
    "'p ent_coef_module \<Rightarrow> real \<Rightarrow> ('p, 's) TrainState \<Rightarrow> real \<Rightarrow>
     error + ('p, 's) TrainState \<times> real"

definition returning :: "('p, 's, 'x, 'k) SAC \<Rightarrow> ('p, 's, 'x, 'k) SAC_raising" where
  "returning sac =
     \<lparr>update_critic_raising = (\<lambda>actor qf ent_coef gamma a q e x1 x2 x3 x4 x5 k.
        Inr (update_critic sac actor qf ent_coef gamma a q e x1 x2 x3 x4 x5 k)),
      soft_update_raising = (\<lambda>tau q. Inr (soft_update sac tau q)),
      update_temperature_raising = (\<lambda>ent_coef t e h. Inr (update_temperature sac ent_coef t e h))\<rparr>"

text \<open>One iteration of the loop; an exception of a method ends it.\<close>

definition cycle_raising ::
  "('p, 's, 'x, 'k) SAC_raising \<Rightarrow>
   ('p, 'x, 'k) actor_module \<Rightarrow> ('p, 'x, 'k) qf_module \<Rightarrow> 'p ent_coef_module \<Rightarrow>
   real \<Rightarrow> real \<Rightarrow> int \<Rightarrow> 'x ReplayBufferSamplesNp \<Rightarrow>
   ('p, 's) TrainState \<Rightarrow> ('p, 's) TrainState \<Rightarrow> int \<Rightarrow> ('p, 's, 'k) locals \<Rightarrow>
   (('p, 's, 'x, 'k) call, ('p, 's, 'k) locals) logged" where
  "cycle_raising sac actor qf ent_coef gamma tau gradient_steps data actor_state ent_coef_state
     i st =
     (let n = l_n_updates st + 1;
          sl = slice gradient_steps i
      in bind (lift (sl (observations data))) (\<lambda>a1.
         bind (lift (sl (actions data))) (\<lambda>a2.
         bind (lift (sl (next_observations data))) (\<lambda>a3.
         bind (lift (sl (rewards data))) (\<lambda>a4.
         bind (lift (sl (dones data))) (\<lambda>a5.
         bind (logged_call
                 (Update_critic gamma actor_state (l_qf_state st) ent_coef_state
                    a1 a2 a3 a4 a5 (l_key st))
                 (update_critic_raising sac actor qf ent_coef gamma actor_state (l_qf_state st)
                    ent_coef_state a1 a2 a3 a4 a5 (l_key st)))
           (\<lambda>(qf_state', (qf_loss_value, ent_coef_value), key').
         bind (logged_call (Soft_update tau qf_state') (soft_update_raising sac tau qf_state'))
           (\<lambda>qf_state''.
         return \<lparr>l_n_updates = n, l_qf_state = qf_state'', l_key = key',
                 l_slice = Some i, l_qf_loss_value = Some qf_loss_value,
                 l_ent_coef_value = Some ent_coef_value\<rparr>))))))))"

definition train_raising ::
  "('p, 's, 'k) jax \<Rightarrow> ('p, 's, 'x, 'k) SAC_raising \<Rightarrow>
   ('p, 'x, 'k) actor_module \<Rightarrow> ('p, 'x, 'k) qf_module \<Rightarrow> 'p ent_coef_module \<Rightarrow>
   real \<Rightarrow> real \<Rightarrow> real \<Rightarrow> int \<Rightarrow> 'x ReplayBufferSamplesNp \<Rightarrow> 32 word \<Rightarrow>
   ('p, 's) RLTrainState \<Rightarrow> ('p, 's) TrainState \<Rightarrow> ('p, 's) TrainState \<Rightarrow> 'k \<Rightarrow>
   (('p, 's, 'x, 'k) call,
    32 word \<times> ('p, 's) RLTrainState \<times> ('p, 's) TrainState \<times> ('p, 's) TrainState \<times> 'k \<times>
    (real \<times> real \<times> real)) logged" where
  "train_raising lib sac actor qf ent_coef gamma tau target_entropy gradient_steps data
     n_updates qf_state actor_state ent_coef_state key =
     bind (train_loop
             (cycle_raising sac actor qf ent_coef gamma tau gradient_steps data actor_state
                ent_coef_state)
             (py_range gradient_steps)
             \<lparr>l_n_updates = n_updates, l_qf_state = qf_state, l_key = key,
              l_slice = None, l_qf_loss_value = None, l_ent_coef_value = None\<rparr>)
       (\<lambda>st.
     case l_slice st of
       None \<Rightarrow> raise UnboundLocalError
     | Some i \<Rightarrow>
         bind (lift (slice gradient_steps i (observations data))) (\<lambda>a1.
         bind (logged_call
                 (Update_actor actor_state (l_qf_state st) ent_coef_state a1 (l_key st))
                 (update_actor lib actor qf ent_coef actor_state (l_qf_state st)
                    ent_coef_state a1 (l_key st)))
           (\<lambda>(actor_state', qf_state', actor_loss_value, key', entropy).
         bind (logged_call
                 (Update_temperature target_entropy ent_coef_state entropy)
                 (update_temperature_raising sac ent_coef target_entropy ent_coef_state entropy))
           (\<lambda>(ent_coef_state', _).
         case (l_qf_loss_value st, l_ent_coef_value st) of
           (Some qf_loss_value, Some ent_coef_value) \<Rightarrow>
             return (l_n_updates st, qf_state', actor_state', ent_coef_state', key',
                     (actor_loss_value, qf_loss_value, ent_coef_value))
         | _ \<Rightarrow> raise UnboundLocalError))))"

text \<open>
  The argument \<open>n_updates\<close> as \<^verbatim>\<open>jax.jit\<close> takes it from the caller: a Python integer
  outside the signed 32-bit range is refused before the body runs.
\<close>

definition jit_int32 :: "int \<Rightarrow> error + 32 word" where
  "jit_int32 n =
     (if - (2 ^ 31) \<le> n \<and> n < 2 ^ 31 then Inr (word_of_int n) else Inl OverflowError)"

text \<open>The call of the compiled \<^verbatim>\<open>_train\<close>, with \<open>n_updates\<close> a Python integer.\<close>

definition train_jit ::
  "('p, 's, 'k) jax \<Rightarrow> ('p, 's, 'x, 'k) SAC_raising \<Rightarrow>
   ('p, 'x, 'k) actor_module \<Rightarrow> ('p, 'x, 'k) qf_module \<Rightarrow> 'p ent_coef_module \<Rightarrow>
   real \<Rightarrow> real \<Rightarrow> real \<Rightarrow> int \<Rightarrow> 'x ReplayBufferSamplesNp \<Rightarrow> int \<Rightarrow>
   ('p, 's) RLTrainState \<Rightarrow> ('p, 's) TrainState \<Rightarrow> ('p, 's) TrainState \<Rightarrow> 'k \<Rightarrow>
   (('p, 's, 'x, 'k) call,
    32 word \<times> ('p, 's) RLTrainState \<times> ('p, 's) TrainState \<times> ('p, 's) TrainState \<times> 'k \<times>
    (real \<times> real \<times> real)) logged" where
  "train_jit lib sac actor qf ent_coef gamma tau target_entropy gradient_steps data
     n_updates qf_state actor_state ent_coef_state key =
     (case jit_int32 n_updates of
        Inl e \<Rightarrow> raise e
      | Inr n \<Rightarrow>
          train_raising lib sac actor qf ent_coef gamma tau target_entropy gradient_steps data
            n qf_state actor_state ent_coef_state key)"

text \<open>The exception that a logged call raises, if it raises one.\<close>

fun call_error ::
  "('p, 's, 'k) jax \<Rightarrow> ('p, 's, 'x, 'k) SAC_raising \<Rightarrow>
   ('p, 'x, 'k) actor_module \<Rightarrow> ('p, 'x, 'k) qf_module \<Rightarrow> 'p ent_coef_module \<Rightarrow>
   ('p, 's, 'x, 'k) call \<Rightarrow> error option" where
  "call_error lib sac actor qf ent_coef (Update_critic gamma a q e x1 x2 x3 x4 x5 k) =
     (case update_critic_raising sac actor qf ent_coef gamma a q e x1 x2 x3 x4 x5 k of
        Inl err \<Rightarrow> Some err | Inr r \<Rightarrow> None)"
| "call_error lib sac actor qf ent_coef (Soft_update tau q) =
     (case soft_update_raising sac tau q of Inl err \<Rightarrow> Some err | Inr r \<Rightarrow> None)"
| "call_error lib sac actor qf ent_coef (Update_actor a q e x1 k) =
     (case update_actor lib actor qf ent_coef a q e x1 k of Inl err \<Rightarrow> Some err | Inr r \<Rightarrow> None)"
| "call_error lib sac actor qf ent_coef (Update_temperature t e h) =
     (case update_temperature_raising sac ent_coef t e h of Inl err \<Rightarrow> Some err | Inr r \<Rightarrow> None)"

subsection \<open>The loop in closed form\<close>

text \<open>
  Every array of the batch has a length divisible by \<open>gradient_steps\<close>: the condition
  asserted by \<^verbatim>\<open>slice\<close>, for the five arrays that \<^verbatim>\<open>_train\<close> slices.
\<close>

definition sliceable :: "int \<Rightarrow> 'x ReplayBufferSamplesNp \<Rightarrow> bool" where
  "sliceable g data \<longleftrightarrow>
     int (length (observations data)) mod g = 0 \<and>
     int (length (actions data)) mod g = 0 \<and>
     int (length (next_observations data)) mod g = 0 \<and>
     int (length (rewards data)) mod g = 0 \<and>
     int (length (dones data)) mod g = 0"

text \<open>The rows \<open>[i\<cdot>m, (i+1)\<cdot>m)\<close> of \<open>x\<close>, where \<open>m = length x div g\<close>.\<close>

definition micro_batch :: "int \<Rightarrow> nat \<Rightarrow> 'x list \<Rightarrow> 'x list" where
  "micro_batch g i x = (let m = length x div nat g in map ((!) x) [i * m..<(i + 1) * m])"

text \<open>The call of \<^verbatim>\<open>SAC.update_critic\<close> in cycle \<open>i\<close>, from the locals \<open>st\<close>.\<close>

definition critic_call ::
  "('p, 's, 'x, 'k) SAC \<Rightarrow>
   ('p, 'x, 'k) actor_module \<Rightarrow> ('p, 'x, 'k) qf_module \<Rightarrow> 'p ent_coef_module \<Rightarrow>
   real \<Rightarrow> int \<Rightarrow> 'x ReplayBufferSamplesNp \<Rightarrow>
   ('p, 's) TrainState \<Rightarrow> ('p, 's) TrainState \<Rightarrow> nat \<Rightarrow> ('p, 's, 'k) locals \<Rightarrow>
   ('p, 's) RLTrainState \<times> (real \<times> real) \<times> 'k" where
  "critic_call sac actor qf ent_coef gamma g data actor_state ent_coef_state i st =
     update_critic sac actor qf ent_coef gamma actor_state (l_qf_state st) ent_coef_state
       (micro_batch g i (observations data)) (micro_batch g i (actions data))
       (micro_batch g i (next_observations data)) (micro_batch g i (rewards data))
       (micro_batch g i (dones data)) (l_key st)"

text \<open>The locals after \<open>k\<close> cycles that all succeed.\<close>

fun loop_state ::
  "('p, 's, 'x, 'k) SAC \<Rightarrow>
   ('p, 'x, 'k) actor_module \<Rightarrow> ('p, 'x, 'k) qf_module \<Rightarrow> 'p ent_coef_module \<Rightarrow>
   real \<Rightarrow> real \<Rightarrow> int \<Rightarrow> 'x ReplayBufferSamplesNp \<Rightarrow>
   ('p, 's) TrainState \<Rightarrow> ('p, 's) TrainState \<Rightarrow> ('p, 's, 'k) locals \<Rightarrow> nat \<Rightarrow>
   ('p, 's, 'k) locals" where
  "loop_state sac actor qf ent_coef gamma tau g data actor_state ent_coef_state st0 0 = st0"
| "loop_state sac actor qf ent_coef gamma tau g data actor_state ent_coef_state st0 (Suc j) =
     (let st = loop_state sac actor qf ent_coef gamma tau g data actor_state ent_coef_state st0 j
      in case critic_call sac actor qf ent_coef gamma g data actor_state ent_coef_state j st of
           (qf_state', (qf_loss_value, ent_coef_value), key') \<Rightarrow>
             \<lparr>l_n_updates = l_n_updates st + 1, l_qf_state = soft_update sac tau qf_state',
              l_key = key', l_slice = Some (int j), l_qf_loss_value = Some qf_loss_value,
              l_ent_coef_value = Some ent_coef_value\<rparr>)"

text \<open>The two calls of cycle \<open>i\<close>, from the locals \<open>st\<close>.\<close>

definition cycle_log ::
  "('p, 's, 'x, 'k) SAC \<Rightarrow>
   ('p, 'x, 'k) actor_module \<Rightarrow> ('p, 'x, 'k) qf_module \<Rightarrow> 'p ent_coef_module \<Rightarrow>
   real \<Rightarrow> real \<Rightarrow> int \<Rightarrow> 'x ReplayBufferSamplesNp \<Rightarrow>
   ('p, 's) TrainState \<Rightarrow> ('p, 's) TrainState \<Rightarrow> nat \<Rightarrow> ('p, 's, 'k) locals \<Rightarrow>
   ('p, 's, 'x, 'k) call list" where
  "cycle_log sac actor qf ent_coef gamma tau g data actor_state ent_coef_state i st =
     [Update_critic gamma actor_state (l_qf_state st) ent_coef_state
        (micro_batch g i (observations data)) (micro_batch g i (actions data))
        (micro_batch g i (next_observations data)) (micro_batch g i (rewards data))
        (micro_batch g i (dones data)) (l_key st),
      Soft_update tau
        (fst (critic_call sac actor qf ent_coef gamma g data actor_state ent_coef_state i st))]"

text \<open>The calls of the first \<open>k\<close> cycles.\<close>

definition loop_log ::
  "('p, 's, 'x, 'k) SAC \<Rightarrow>
   ('p, 'x, 'k) actor_module \<Rightarrow> ('p, 'x, 'k) qf_module \<Rightarrow> 'p ent_coef_module \<Rightarrow>
   real \<Rightarrow> real \<Rightarrow> int \<Rightarrow> 'x ReplayBufferSamplesNp \<Rightarrow>
   ('p, 's) TrainState \<Rightarrow> ('p, 's) TrainState \<Rightarrow> ('p, 's, 'k) locals \<Rightarrow> nat \<Rightarrow>
   ('p, 's, 'x, 'k) call list" where
  "loop_log sac actor qf ent_coef gamma tau g data actor_state ent_coef_state st0 k =
     concat (map (\<lambda>j. cycle_log sac actor qf ent_coef gamma tau g data actor_state ent_coef_state j
                         (loop_state sac actor qf ent_coef gamma tau g data actor_state
                            ent_coef_state st0 j))
                 [0..<k])"

text \<open>
  The shape contract of the networks: on a batch of \<open>B\<close> observations the actor's
  log-probabilities have \<open>B\<close> rows, and the critic ensemble has at least one member, each
  with \<open>B\<close> rows.
\<close>

definition well_shaped :: "('p, 'x, 'k) actor_module \<Rightarrow> ('p, 'x, 'k) qf_module \<Rightarrow> bool" where
  "well_shaped actor qf \<longleftrightarrow>
     (\<forall>ps qps obs nk dk.
        length (log_prob (actor ps obs) (sample (actor ps obs) nk)) = length obs \<and>
        qf qps obs (sample (actor ps obs) nk) dk \<noteq> [] \<and>
        (\<forall>row \<in> set (qf qps obs (sample (actor ps obs) nk) dk). length row = length obs))"

subsection \<open>Reading the call log\<close>

datatype call_kind = Critic | Soft | Actor | Temperature

fun kind_of :: "('p, 's, 'x, 'k) call \<Rightarrow> call_kind" where
  "kind_of (Update_critic gamma a q e x1 x2 x3 x4 x5 k) = Critic"
| "kind_of (Soft_update tau q) = Soft"
| "kind_of (Update_actor a q e x1 k) = Actor"
| "kind_of (Update_temperature t e h) = Temperature"

text \<open>
  The five arrays passed to each call of \<^verbatim>\<open>update_critic\<close>, in the order
  observations, actions, next observations, rewards, dones.
\<close>

fun critic_batches ::
  "('p, 's, 'x, 'k) call list \<Rightarrow> ('x list \<times> 'x list \<times> 'x list \<times> 'x list \<times> 'x list) list" where
  "critic_batches [] = []"
| "critic_batches (Update_critic gamma a q e x1 x2 x3 x4 x5 k # cs) =
     (x1, x2, x3, x4, x5) # critic_batches cs"
| "critic_batches (c # cs) = critic_batches cs"




definition critic_calls :: "('p, 's, 'x, 'k) call list \<Rightarrow> ('p, 's, 'x, 'k) call list" where
  "critic_calls cs = filter (\<lambda>c. kind_of c = Critic) cs"

text \<open>What a logged call of \<^verbatim>\<open>update_critic\<close> returns.\<close>

fun critic_result ::
  "('p, 's, 'x, 'k) SAC \<Rightarrow>
   ('p, 'x, 'k) actor_module \<Rightarrow> ('p, 'x, 'k) qf_module \<Rightarrow> 'p ent_coef_module \<Rightarrow>
   ('p, 's, 'x, 'k) call \<Rightarrow> (('p, 's) RLTrainState \<times> (real \<times> real) \<times> 'k) option" where
  "critic_result sac actor qf ent_coef (Update_critic gamma a q e x1 x2 x3 x4 x5 k) =
     Some (update_critic sac actor qf ent_coef gamma a q e x1 x2 x3 x4 x5 k)"
| "critic_result sac actor qf ent_coef c = None"

text \<open>The entropy-coefficient state that a logged call of \<^verbatim>\<open>update_critic\<close> received.\<close>

fun critic_ent_coef_state :: "('p, 's, 'x, 'k) call \<Rightarrow> ('p, 's) TrainState option" where
  "critic_ent_coef_state (Update_critic gamma a q e x1 x2 x3 x4 x5 k) = Some e"
| "critic_ent_coef_state c = None"

text \<open>Projections of the tuple that \<^verbatim>\<open>_train\<close> returns.\<close>

definition result_n_updates ::
  "'n \<times> 'q \<times> 'a \<times> 'e \<times> 'k \<times> (real \<times> real \<times> real) \<Rightarrow> 'n" where
  "result_n_updates r = (case r of (n, q, a, e, k, d) \<Rightarrow> n)"

definition result_ent_coef_state ::
  "'n \<times> 'q \<times> 'a \<times> 'e \<times> 'k \<times> (real \<times> real \<times> real) \<Rightarrow> 'e" where
  "result_ent_coef_state r = (case r of (n, q, a, e, k, d) \<Rightarrow> e)"


definition result_qf_loss ::
  "'n \<times> 'q \<times> 'a \<times> 'e \<times> 'k \<times> (real \<times> real \<times> real) \<Rightarrow> real" where
  "result_qf_loss r = (case r of (n, q, a, e, k, (al, ql, ev)) \<Rightarrow> ql)"

definition result_ent_coef_value ::
  "'n \<times> 'q \<times> 'a \<times> 'e \<times> 'k \<times> (real \<times> real \<times> real) \<Rightarrow> real" where
  "result_ent_coef_value r = (case r of (n, q, a, e, k, (al, ql, ev)) \<Rightarrow> ev)"

subsection \<open>Stub collaborators and a small batch, for concrete runs\<close>

definition stub_actor :: "(real, nat, nat) actor_module" where
  "stub_actor ps obs = \<lparr>sample = (\<lambda>k. obs), log_prob = (\<lambda>a. map (\<lambda>x. - real x) a)\<rparr>"

definition stub_qf :: "(real, nat, nat) qf_module" where
  "stub_qf qps obs a dk = [map real a, map (\<lambda>x. real x + 2) a]"

definition stub_ent_coef :: "real ent_coef_module" where
  "stub_ent_coef ps = 1 / 2"

definition stub_jax :: "(real, unit, nat) jax" where
  "stub_jax =
     \<lparr>random_split3 = (\<lambda>k. (3 * k + 1, 3 * k + 2, 3 * k + 3)),
      grad = (\<lambda>f p. 1),
      apply_gradients = (\<lambda>s g. s\<lparr>opt_step := opt_step s + 1, params := params s - g\<rparr>)\<rparr>"

definition stub_sac :: "(real, unit, nat, nat) SAC" where
  "stub_sac =
     \<lparr>update_critic = (\<lambda>actor qf ent_coef gamma a q e x1 x2 x3 x4 x5 k.
        (q\<lparr>opt_step := opt_step q + 1\<rparr>, (real (sum_list x1), ent_coef (params e)), 3 * k + 1)),
      soft_update = (\<lambda>tau q. q\<lparr>target_params := tau * params q + (1 - tau) * target_params q\<rparr>),
      update_temperature = (\<lambda>ent_coef t e h.
        (e\<lparr>opt_step := opt_step e + 1\<rparr>, ent_coef (params e) * (h - t)))\<rparr>"

definition stub_data :: "nat ReplayBufferSamplesNp" where
  "stub_data =
     \<lparr>observations = [1, 2, 3, 4], actions = [11, 12, 13, 14],
      next_observations = [2, 3, 4, 5], dones = [0, 0, 0, 1], rewards = [5, 6, 7, 8]\<rparr>"

definition stub_qf_state :: "(real, unit) RLTrainState" where
  "stub_qf_state = \<lparr>opt_step = 0, params = 1, opt_state = (), target_params = 0\<rparr>"

definition stub_state :: "(real, unit) TrainState" where
  "stub_state = \<lparr>opt_step = 0, params = 2, opt_state = ()\<rparr>"

subsection \<open>\<^verbatim>\<open>DroQ_SAC.__init__\<close>\<close>

text \<open>The values of a \<^verbatim>\<open>Dict[str, Any]\<close>.\<close>

datatype pyval =
    PyNone
  | PyBool bool
  | PyInt int
  | PyFloat real
  | PyStr string
  | PyList "pyval list"

text \<open>The keyword arguments that \<^verbatim>\<open>DroQ_SAC.__init__\<close> passes to the parent constructor.\<close>

record ('pol, 'env, 'noise) SAC_kwargs =
  kw_policy :: 'pol
  kw_env :: 'env
  kw_learning_rate :: "real + (real \<Rightarrow> real)"
  kw_buffer_size :: int
  kw_learning_starts :: int
  kw_batch_size :: int
  kw_tau :: real
  kw_gamma :: real
  kw_train_freq :: "int + int \<times> string"
  kw_gradient_steps :: int
  kw_action_noise :: "'noise option"
  kw_use_sde :: bool
  kw_sde_sample_freq :: int
  kw_use_sde_at_warmup :: bool
  kw_ent_coef :: "string + real"
  kw_policy_kwargs :: "(string \<rightharpoonup> pyval) option"
  kw_tensorboard_log :: "string option"
  kw_verbose :: int
  kw_seed :: "int option"
  kw_init_setup_model :: bool

text \<open>The arguments of \<^verbatim>\<open>DroQ_SAC.__init__\<close>: those of the parent and three more.\<close>

record ('pol, 'env, 'noise) DroQ_kwargs = "('pol, 'env, 'noise) SAC_kwargs" +
  kw_dropout_rate :: real
  kw_layer_norm :: bool
  kw_device :: string

text \<open>The default values of the signature; \<open>policy\<close> and \<open>env\<close> have none.\<close>

definition DroQ_defaults :: "'pol \<Rightarrow> 'env \<Rightarrow> ('pol, 'env, 'noise) DroQ_kwargs" where
  "DroQ_defaults policy env =
     \<lparr>kw_policy = policy, kw_env = env, kw_learning_rate = Inl (3 / 10000),
      kw_buffer_size = 1000000, kw_learning_starts = 100, kw_batch_size = 256,
      kw_tau = 5 / 1000, kw_gamma = 99 / 100, kw_train_freq = Inl 1, kw_gradient_steps = 1,
      kw_action_noise = None, kw_use_sde = False, kw_sde_sample_freq = - 1,
      kw_use_sde_at_warmup = False, kw_ent_coef = Inl ''auto'', kw_policy_kwargs = None,
      kw_tensorboard_log = None, kw_verbose = 0, kw_seed = None, kw_init_setup_model = True,
      kw_dropout_rate = 1 / 100, kw_layer_norm = True, kw_device = ''auto''\<rparr>"

text \<open>The call \<^verbatim>\<open>super().__init__(...)\<close>: twenty arguments are passed on, \<open>device\<close> is not.\<close>

definition SAC_kwargs_of ::
  "('pol, 'env, 'noise) DroQ_kwargs \<Rightarrow> ('pol, 'env, 'noise) SAC_kwargs" where
  "SAC_kwargs_of kw =
     \<lparr>kw_policy = kw_policy kw, kw_env = kw_env kw, kw_learning_rate = kw_learning_rate kw,
      kw_buffer_size = kw_buffer_size kw, kw_learning_starts = kw_learning_starts kw,
      kw_batch_size = kw_batch_size kw, kw_tau = kw_tau kw, kw_gamma = kw_gamma kw,
      kw_train_freq = kw_train_freq kw, kw_gradient_steps = kw_gradient_steps kw,
      kw_action_noise = kw_action_noise kw, kw_use_sde = kw_use_sde kw,
      kw_sde_sample_freq = kw_sde_sample_freq kw,
      kw_use_sde_at_warmup = kw_use_sde_at_warmup kw, kw_ent_coef = kw_ent_coef kw,
      kw_policy_kwargs = kw_policy_kwargs kw, kw_tensorboard_log = kw_tensorboard_log kw,
      kw_verbose = kw_verbose kw, kw_seed = kw_seed kw,
      kw_init_setup_model = kw_init_setup_model kw\<rparr>"

text \<open>
  The object under construction. The only attribute that the file touches is
  \<^verbatim>\<open>self.policy_kwargs\<close>; \<open>None\<close> is Python's \<^verbatim>\<open>None\<close>, on which item assignment raises
  \<^verbatim>\<open>TypeError\<close>. The other attributes are the rest of the record.
\<close>

record SAC_object =
  policy_kwargs :: "(string \<rightharpoonup> pyval) option"

text \<open>\<^verbatim>\<open>DroQ_SAC.__init__\<close>, with the parent constructor \<open>SAC_init\<close> as a parameter.\<close>

definition DroQ_SAC_init ::
  "(('pol, 'env, 'noise) SAC_kwargs \<Rightarrow> error + 'z SAC_object_scheme) \<Rightarrow>
   ('pol, 'env, 'noise) DroQ_kwargs \<Rightarrow> error + 'z SAC_object_scheme" where
  "DroQ_SAC_init SAC_init kw =
     (case SAC_init (SAC_kwargs_of kw) of
        Inl e \<Rightarrow> Inl e
      | Inr self \<Rightarrow>
          (case policy_kwargs self of
             None \<Rightarrow> Inl TypeError
           | Some d \<Rightarrow>
               let d1 = d(''dropout_rate'' \<mapsto> PyFloat (kw_dropout_rate kw));
                   d2 = d1(''layer_norm'' \<mapsto> PyBool (kw_layer_norm kw))
               in Inr (self\<lparr>policy_kwargs := Some d2\<rparr>)))"

text \<open>
  Two stub parent constructors: one stores the dictionary it is given (an empty one for
  \<^verbatim>\<open>None\<close>) and checks nothing, one always raises.
\<close>

definition stub_SAC_init :: "(unit, unit, unit) SAC_kwargs \<Rightarrow> error + SAC_object" where
  "stub_SAC_init kw =
     Inr \<lparr>policy_kwargs = Some (case kw_policy_kwargs kw of None \<Rightarrow> Map.empty | Some d \<Rightarrow> d)\<rparr>"

definition failing_SAC_init :: "(unit, unit, unit) SAC_kwargs \<Rightarrow> error + SAC_object" where
  "failing_SAC_init kw = Inl (Raised ''parent'')"

text \<open>A call log passes \<open>gamma\<close> to every critic update and \<open>tau\<close> to every soft update.\<close>

fun forwards :: "real \<Rightarrow> real \<Rightarrow> ('p, 's, 'x, 'k) call \<Rightarrow> bool" where
  "forwards gamma tau (Update_critic g a q e x1 x2 x3 x4 x5 k) = (g = gamma)"
| "forwards gamma tau (Soft_update t q) = (t = tau)"
| "forwards gamma tau c = True"

text \<open>
  A caller's arguments: the defaults, and a \<^verbatim>\<open>policy_kwargs\<close> dictionary that has entries of
  its own under the two keys.
\<close>

definition stub_policy_kwargs :: "string \<rightharpoonup> pyval" where
  "stub_policy_kwargs = [''dropout_rate'' \<mapsto> PyFloat (1 / 2), ''layer_norm'' \<mapsto> PyBool False]"

definition stub_kwargs :: "(unit, unit, unit) DroQ_kwargs" where
  "stub_kwargs = (DroQ_defaults () ())\<lparr>kw_policy_kwargs := Some stub_policy_kwargs\<rparr>"

text \<open>
  An outcome of \<^verbatim>\<open>_train\<close> whose exception, if there is one, is the exception of the call
  logged last.
\<close>

definition raised_by_last_call ::
  "('p, 's, 'k) jax \<Rightarrow> ('p, 's, 'x, 'k) SAC_raising \<Rightarrow>
   ('p, 'x, 'k) actor_module \<Rightarrow> ('p, 'x, 'k) qf_module \<Rightarrow> 'p ent_coef_module \<Rightarrow>
   (('p, 's, 'x, 'k) call, 'r) logged \<Rightarrow> bool" where
  "raised_by_last_call lib sac actor qf ent_coef out =
     (case out of
        (cs, Inl e) \<Rightarrow> cs \<noteq> [] \<and> call_error lib sac actor qf ent_coef (last cs) = Some e
      | (cs, Inr r) \<Rightarrow> True)"

subsection \<open>Further stubs: a method that checks, parents that store or leave unset\<close>

text \<open>
  Methods like \<open>stub_sac\<close>, except that the soft update raises for a \<open>tau\<close> outside
  \<open>(0, 1]\<close>.
\<close>

definition checking_sac :: "(real, unit, nat, nat) SAC_raising" where
  "checking_sac =
     \<lparr>update_critic_raising = update_critic_raising (returning stub_sac),
      soft_update_raising = (\<lambda>tau q.
        if 0 < tau \<and> tau \<le> 1 then Inr (soft_update stub_sac tau q) else Inl (Raised ''tau'')),
      update_temperature_raising = update_temperature_raising (returning stub_sac)\<rparr>"

text \<open>
  A parent constructor that only stores what it is given, in an object with attributes
  for the three hyperparameters, and one that leaves \<^verbatim>\<open>policy_kwargs\<close> unset.
\<close>

record stored_object = SAC_object +
  obj_tau :: real
  obj_gamma :: real
  obj_gradient_steps :: int

definition storing_SAC_init :: "(unit, unit, unit) SAC_kwargs \<Rightarrow> error + stored_object" where
  "storing_SAC_init kw =
     Inr \<lparr>policy_kwargs = Some (case kw_policy_kwargs kw of None \<Rightarrow> Map.empty | Some d \<Rightarrow> d),
          obj_tau = kw_tau kw, obj_gamma = kw_gamma kw,
          obj_gradient_steps = kw_gradient_steps kw\<rparr>"

definition unset_SAC_init :: "(unit, unit, unit) SAC_kwargs \<Rightarrow> error + SAC_object" where
  "unset_SAC_init kw = Inr \<lparr>policy_kwargs = None\<rparr>"

text \<open>The arguments of a caller who asks for \<open>tau = 2\<close>, \<open>gamma = 5\<close> and two gradient steps.\<close>

definition bad_kwargs :: "(unit, unit, unit) DroQ_kwargs" where
  "bad_kwargs = (DroQ_defaults () ())\<lparr>kw_tau := 2, kw_gamma := 5, kw_gradient_steps := 2\<rparr>"

subsection \<open>Networks that use their keys, 64-bit keys, and an empty batch\<close>








section \<open>Properties\<close>

subsection \<open>The call log as a monad\<close>

lemma bind_lift_Inr: "bind (lift (Inr v)) f = f v"
  by (simp add: bind_def lift_def split: prod.splits)

lemma bind_lift_Inl: "bind (lift (Inl e)) f = ([], Inl e)"
  by (simp add: bind_def lift_def)

lemma bind_return: "bind (return v) f = f v"
  by (simp add: bind_def return_def split: prod.splits)

lemma bind_raise: "bind (raise e) f = ([], Inl e)"
  by (simp add: bind_def raise_def)

lemma bind_logged_call_Inr: "bind (logged_call c (Inr v)) f = (c # fst (f v), snd (f v))"
  by (simp add: bind_def logged_call_def split: prod.splits)

lemma bind_logged_call_Inl: "bind (logged_call c (Inl e)) f = ([c], Inl e)"
  by (simp add: bind_def logged_call_def)

lemma bind_assoc: "bind (bind m f) h = bind m (\<lambda>v. bind (f v) h)"
  by (simp add: bind_def split: prod.splits sum.splits)

lemma bind_Inr: "bind (cs, Inr v) f = (cs @ fst (f v), snd (f v))"
  by (simp add: bind_def split: prod.splits)

lemma bind_Inl: "bind (cs, Inl e) f = (cs, Inl e)"
  by (simp add: bind_def)

lemma train_loop_append:
  "train_loop body (xs @ ys) st = bind (train_loop body xs st) (train_loop body ys)"
proof (induction xs arbitrary: st)
  case Nil
  show ?case by (simp add: bind_return)
next
  case (Cons x xs)
  have "train_loop body (xs @ ys) = (\<lambda>v. bind (train_loop body xs v) (train_loop body ys))"
    by (rule ext) (rule Cons.IH)
  then show ?case by (simp add: bind_assoc)
qed

subsection \<open>Slices and micro-batches\<close>

lemma py_slice_nonneg:
  assumes "0 \<le> a" "a \<le> b"
  shows "py_slice x a b = take (nat b - nat a) (drop (nat a) x)"
proof -
  have "take (nat (min b (int (length x)) - min a (int (length x)))) (drop (nat (min a (int (length x)))) x)
      = take (nat b - nat a) (drop (nat a) x)"
  proof (cases "a \<le> int (length x)")
    case True
    then have a: "min a (int (length x)) = a" by simp
    show ?thesis
    proof (cases "b \<le> int (length x)")
      case True
      with a assms show ?thesis by (simp add: nat_diff_distrib)
    next
      case False
      then have "min b (int (length x)) = int (length x)" by simp
      with a assms False show ?thesis by (simp add: nat_diff_distrib)
    qed
  next
    case False
    with assms show ?thesis by simp
  qed
  with assms show ?thesis by (simp add: py_slice_def Let_def)
qed

lemma take_drop_map_nth:
  assumes "a + m \<le> length x"
  shows "take m (drop a x) = map ((!) x) [a..<a + m]"
proof (rule nth_equalityI)
  show "length (take m (drop a x)) = length (map ((!) x) [a..<a + m])"
    using assms by simp
next
  fix j assume "j < length (take m (drop a x))"
  then have "j < m" by simp
  then show "take m (drop a x) ! j = map ((!) x) [a..<a + m] ! j"
    using assms by simp
qed

lemma slice_micro_batch:
  assumes g: "1 \<le> g" and d: "int (length x) mod g = 0" and i: "i < nat g"
  shows "slice g (int i) x = Inr (micro_batch g i x)"
proof -
  define m where "m = length x div nat g"
  have gm: "nat g * m = length x"
  proof -
    have "length x mod nat g = 0"
    proof -
      have "length x mod nat g = nat (int (length x) mod g)"
        using g by (simp add: nat_mod_distrib)
      then show ?thesis using d by simp
    qed
    then have "nat g dvd length x" by (simp add: mod_eq_0_iff_dvd)
    then show ?thesis by (simp add: m_def)
  qed
  have bs: "int (length x) div g = int m"
    using g by (simp add: m_def zdiv_int)
  have le: "(i + 1) * m \<le> length x"
  proof -
    have "(i + 1) * m \<le> nat g * m" using i by (intro mult_le_mono1) simp
    then show ?thesis using gm by simp
  qed
  have "py_slice x (int m * int i) (int m * (int i + 1))
        = take (nat (int m * (int i + 1)) - nat (int m * int i)) (drop (nat (int m * int i)) x)"
  proof (rule py_slice_nonneg)
    show "0 \<le> int m * int i" by simp
    show "int m * int i \<le> int m * (int i + 1)" by (intro mult_left_mono) simp_all
  qed
  also have "nat (int m * int i) = i * m"
  proof -
    have "int m * int i = int (i * m)" by simp
    then show ?thesis by (simp only: nat_int)
  qed
  also have "nat (int m * (int i + 1)) = (i + 1) * m"
  proof -
    have "int m * (int i + 1) = int ((i + 1) * m)" by (simp add: algebra_simps)
    then show ?thesis by (simp only: nat_int)
  qed
  also have "(i + 1) * m - i * m = m" by simp
  also have "take m (drop (i * m) x) = map ((!) x) [i * m..<i * m + m]"
    using le by (intro take_drop_map_nth) simp
  finally have "py_slice x (int m * int i) (int m * (int i + 1)) = micro_batch g i x"
    by (simp add: micro_batch_def m_def[symmetric] add.commute)
  then show ?thesis
    using g d by (simp add: slice_def Let_def bs)
qed




subsection \<open>One cycle, and the loop\<close>

lemma cycle_ok:
  assumes g: "1 \<le> g" and d: "sliceable g data" and i: "i < nat g"
  shows "cycle sac actor qf ent_coef gamma tau g data actor_state ent_coef_state (int i) st =
         (cycle_log sac actor qf ent_coef gamma tau g data actor_state ent_coef_state i st,
          Inr (case critic_call sac actor qf ent_coef gamma g data actor_state ent_coef_state i st of
                 (qf_state', (qf_loss_value, ent_coef_value), key') \<Rightarrow>
                   \<lparr>l_n_updates = l_n_updates st + 1, l_qf_state = soft_update sac tau qf_state',
                    l_key = key', l_slice = Some (int i), l_qf_loss_value = Some qf_loss_value,
                    l_ent_coef_value = Some ent_coef_value\<rparr>))"
proof -
  have s1: "slice g (int i) (observations data) = Inr (micro_batch g i (observations data))"
    using g d i by (intro slice_micro_batch) (simp_all add: sliceable_def)
  have s2: "slice g (int i) (actions data) = Inr (micro_batch g i (actions data))"
    using g d i by (intro slice_micro_batch) (simp_all add: sliceable_def)
  have s3: "slice g (int i) (next_observations data) = Inr (micro_batch g i (next_observations data))"
    using g d i by (intro slice_micro_batch) (simp_all add: sliceable_def)
  have s4: "slice g (int i) (rewards data) = Inr (micro_batch g i (rewards data))"
    using g d i by (intro slice_micro_batch) (simp_all add: sliceable_def)
  have s5: "slice g (int i) (dones data) = Inr (micro_batch g i (dones data))"
    using g d i by (intro slice_micro_batch) (simp_all add: sliceable_def)
  show ?thesis
    by (simp add: cycle_def Let_def s1 s2 s3 s4 s5 bind_lift_Inr bind_logged_call_Inr
        cycle_log_def critic_call_def return_def split: prod.splits)
qed

lemma cycle_fails:
  assumes g: "1 \<le> g" and d: "\<not> sliceable g data"
  shows "cycle sac actor qf ent_coef gamma tau g data actor_state ent_coef_state i st =
         ([], Inl AssertionError)"
proof -
  have nz: "g \<noteq> 0" using g by simp
  show ?thesis
  proof (cases "int (length (observations data)) mod g = 0")
    case False
    then show ?thesis using nz
      by (simp add: cycle_def Let_def slice_def bind_lift_Inl)
  next
    case o: True
    show ?thesis
    proof (cases "int (length (actions data)) mod g = 0")
      case False
      then show ?thesis using nz o
        by (simp add: cycle_def Let_def slice_def bind_lift_Inl bind_lift_Inr)
    next
      case a: True
      show ?thesis
      proof (cases "int (length (next_observations data)) mod g = 0")
        case False
        then show ?thesis using nz o a
          by (simp add: cycle_def Let_def slice_def bind_lift_Inl bind_lift_Inr)
      next
        case n: True
        show ?thesis
        proof (cases "int (length (rewards data)) mod g = 0")
          case False
          then show ?thesis using nz o a n
            by (simp add: cycle_def Let_def slice_def bind_lift_Inl bind_lift_Inr)
        next
          case r: True
          then have "int (length (dones data)) mod g \<noteq> 0"
            using d o a n by (simp add: sliceable_def)
          then show ?thesis using nz o a n r
            by (simp add: cycle_def Let_def slice_def bind_lift_Inl bind_lift_Inr)
        qed
      qed
    qed
  qed
qed

lemma train_loop_closed:
  assumes g: "1 \<le> g" and d: "sliceable g data" and k: "k \<le> nat g"
  shows "train_loop (cycle sac actor qf ent_coef gamma tau g data actor_state ent_coef_state)
           (map int [0..<k]) st0 =
         (loop_log sac actor qf ent_coef gamma tau g data actor_state ent_coef_state st0 k,
          Inr (loop_state sac actor qf ent_coef gamma tau g data actor_state ent_coef_state st0 k))"
  using k
proof (induction k)
  case 0
  show ?case by (simp add: loop_log_def return_def)
next
  case (Suc k)
  then have k: "k < nat g" and IH: "train_loop (cycle sac actor qf ent_coef gamma tau g data actor_state ent_coef_state)
           (map int [0..<k]) st0 =
         (loop_log sac actor qf ent_coef gamma tau g data actor_state ent_coef_state st0 k,
          Inr (loop_state sac actor qf ent_coef gamma tau g data actor_state ent_coef_state st0 k))"
    by simp_all
  show ?case
    by (simp add: train_loop_append IH bind_Inr cycle_ok [OF g d k] bind_def return_def
        loop_log_def Let_def)
qed

lemma loop_state_n_updates:
  "l_n_updates (loop_state sac actor qf ent_coef gamma tau g data actor_state ent_coef_state st0 k)
   = l_n_updates st0 + of_nat k"
  by (induction k) (simp_all add: Let_def split: prod.splits)

lemma loop_state_slice:
  "l_slice (loop_state sac actor qf ent_coef gamma tau g data actor_state ent_coef_state st0 (Suc k))
   = Some (int k)"
  by (simp add: Let_def split: prod.splits)

lemma loop_state_diag:
  "l_qf_loss_value (loop_state sac actor qf ent_coef gamma tau g data actor_state ent_coef_state st0 (Suc k))
   = Some (fst (fst (snd (critic_call sac actor qf ent_coef gamma g data actor_state ent_coef_state k
        (loop_state sac actor qf ent_coef gamma tau g data actor_state ent_coef_state st0 k)))))"
  "l_ent_coef_value (loop_state sac actor qf ent_coef gamma tau g data actor_state ent_coef_state st0 (Suc k))
   = Some (snd (fst (snd (critic_call sac actor qf ent_coef gamma g data actor_state ent_coef_state k
        (loop_state sac actor qf ent_coef gamma tau g data actor_state ent_coef_state st0 k)))))"
  by (simp_all add: Let_def split: prod.splits)


subsection \<open>The actor update on well-shaped networks\<close>

lemma jnp_mean_axis0_rect:
  assumes ne: "q \<noteq> []" and rect: "\<forall>row \<in> set q. length row = n"
  shows "jnp_mean_axis0 q = map (\<lambda>j. (\<Sum>e < length q. q ! e ! j) / real (length q)) [0..<n]"
proof -
  have "transpose q = map (\<lambda>i. map (\<lambda>j. q ! j ! i) [0..<length q]) [0..<n]"
    using ne rect by (intro transpose_rectangle) simp_all
  moreover have "\<And>j. sum_list (map (\<lambda>e. q ! e ! j) [0..<length q]) = (\<Sum>e < length q. q ! e ! j)"
    by (simp add: sum_list_sum_nth atLeast0LessThan)
  ultimately show ?thesis
    by (simp add: jnp_mean_axis0_def jnp_mean_def comp_def)
qed

lemma actor_loss_ok:
  assumes w: "well_shaped actor qf"
  shows "\<exists>al ent. actor_loss actor qf ent_coef qf_state ent_coef_state obs dk nk ps = Inr (al, ent)"
proof -
  let ?a = "sample (actor ps obs) nk"
  let ?q = "qf (params qf_state) obs ?a dk"
  have lp: "length (log_prob (actor ps obs) ?a) = length obs"
    and ne: "?q \<noteq> []" and rect: "\<forall>row \<in> set ?q. length row = length obs"
    using w unfolding well_shaped_def by blast+
  have "length (jnp_mean_axis0 ?q) = length obs"
    by (simp add: jnp_mean_axis0_rect [OF ne rect])
  then show ?thesis
    using lp by (simp add: actor_loss_def Let_def broadcast2_def)
qed

lemma update_actor_ok:
  assumes w: "well_shaped actor qf"
  shows "\<exists>actor_state' al ent.
           update_actor lib actor qf ent_coef actor_state qf_state ent_coef_state obs key =
           Inr (actor_state', qf_state, al, fst (random_split3 lib key), ent)"
proof -
  obtain k' dk nk where sp: "random_split3 lib key = (k', dk, nk)"
    by (cases "random_split3 lib key") auto
  obtain al ent where
    "actor_loss actor qf ent_coef qf_state ent_coef_state obs dk nk (params actor_state) = Inr (al, ent)"
    using actor_loss_ok [OF w] by blast
  then show ?thesis
    by (simp add: update_actor_def sp Let_def)
qed

lemma update_actor_error:
  "update_actor lib actor qf ent_coef actor_state qf_state ent_coef_state obs key = Inl e
   \<Longrightarrow> e = BroadcastError"
  by (auto simp: update_actor_def actor_loss_def broadcast2_def Let_def
      split: prod.splits sum.splits if_splits)

lemma update_actor_not_assertion:
  "update_actor lib actor qf ent_coef actor_state qf_state ent_coef_state obs key
   \<noteq> Inl AssertionError"
  using update_actor_error by fastforce

subsection \<open>\<^verbatim>\<open>_train\<close> in closed form\<close>

lemma train_closed:
  assumes g: "1 \<le> g" and d: "sliceable g data"
  shows "train lib sac actor qf ent_coef gamma tau target_entropy g data
           n_updates qf_state actor_state ent_coef_state key =
         (let st0 = \<lparr>l_n_updates = n_updates, l_qf_state = qf_state, l_key = key,
                     l_slice = None, l_qf_loss_value = None, l_ent_coef_value = None\<rparr>;
              pre = loop_state sac actor qf ent_coef gamma tau g data actor_state ent_coef_state
                      st0 (nat g - 1);
              fin = loop_state sac actor qf ent_coef gamma tau g data actor_state ent_coef_state
                      st0 (nat g);
              log = loop_log sac actor qf ent_coef gamma tau g data actor_state ent_coef_state
                      st0 (nat g);
              a1 = micro_batch g (nat g - 1) (observations data);
              crit = critic_call sac actor qf ent_coef gamma g data actor_state ent_coef_state
                      (nat g - 1) pre
          in case update_actor lib actor qf ent_coef actor_state (l_qf_state fin) ent_coef_state
                    a1 (l_key fin) of
               Inl e \<Rightarrow>
                 (log @ [Update_actor actor_state (l_qf_state fin) ent_coef_state a1 (l_key fin)],
                  Inl e)
             | Inr (actor_state', qf_state', actor_loss_value, key', entropy) \<Rightarrow>
                 (log @ [Update_actor actor_state (l_qf_state fin) ent_coef_state a1 (l_key fin),
                         Update_temperature target_entropy ent_coef_state entropy],
                  Inr (n_updates + word_of_int g, qf_state', actor_state',
                       fst (update_temperature sac ent_coef target_entropy ent_coef_state entropy),
                       key', (actor_loss_value, fst (fst (snd crit)), snd (fst (snd crit))))))"
proof -
  obtain k where k: "nat g = Suc k" using g by (cases "nat g") auto
  have gk: "word_of_int g = (1 + of_nat k :: 32 word)"
  proof -
    have "g = int (Suc k)" using k g by linarith
    then show ?thesis by simp
  qed
  let ?st0 = "\<lparr>l_n_updates = n_updates, l_qf_state = qf_state, l_key = key,
                l_slice = None, l_qf_loss_value = None, l_ent_coef_value = None\<rparr>"
  have loop: "train_loop (cycle sac actor qf ent_coef gamma tau g data actor_state ent_coef_state)
           (py_range g) ?st0 =
         (loop_log sac actor qf ent_coef gamma tau g data actor_state ent_coef_state ?st0 (Suc k),
          Inr (loop_state sac actor qf ent_coef gamma tau g data actor_state ent_coef_state ?st0 (Suc k)))"
    unfolding py_range_def k [symmetric] by (rule train_loop_closed [OF g d]) simp
  have sl: "slice g (int k) (observations data) = Inr (micro_batch g k (observations data))"
    using g d k by (intro slice_micro_batch) (simp_all add: sliceable_def)
  show ?thesis
    unfolding train_def loop bind_Inr k Let_def
    by (simp only: loop_state_slice loop_state_diag loop_state_n_updates option.case sl
          bind_lift_Inr diff_Suc_1)
       (simp add: gk bind_def logged_call_def return_def split: sum.splits prod.splits)
qed

lemma train_nonpositive:
  assumes "g < 1"
  shows "train lib sac actor qf ent_coef gamma tau target_entropy g data
           n_updates qf_state actor_state ent_coef_state key = ([], Inl UnboundLocalError)"
proof -
  have "py_range g = []" using assms by (simp add: py_range_def)
  then show ?thesis
    by (simp add: train_def bind_return raise_def)
qed

lemma train_not_sliceable:
  assumes g: "1 \<le> g" and d: "\<not> sliceable g data"
  shows "train lib sac actor qf ent_coef gamma tau target_entropy g data
           n_updates qf_state actor_state ent_coef_state key = ([], Inl AssertionError)"
proof -
  obtain k where k: "nat g = Suc k" using g by (cases "nat g") auto
  have "py_range g = 0 # map int [1..<Suc k]"
    by (simp add: py_range_def k upt_conv_Cons)
  then show ?thesis
    by (simp add: train_def cycle_fails [OF g d] bind_Inl)
qed

subsection \<open>The 32-bit counter, and methods that return among methods that may raise\<close>

lemma sint_add_no_overflow:
  fixes a :: "32 word"
  assumes "- (2 ^ 31) \<le> sint a + g" and "sint a + g < 2 ^ 31"
  shows "sint (a + word_of_int g) = sint a + g"
proof -
  have "a + word_of_int g = word_of_int (sint a + g)"
    by simp
  then have "sint (a + word_of_int g) = signed_take_bit 31 (sint a + g)"
    by (simp only: sint_sbintrunc') simp
  also have "\<dots> = sint a + g"
    using assms by (intro signed_take_bit_int_eq_self) simp_all
  finally show ?thesis .
qed

lemma returning_simps:
  "update_critic_raising (returning sac) actor qf ent_coef gamma a q e x1 x2 x3 x4 x5 k
   = Inr (update_critic sac actor qf ent_coef gamma a q e x1 x2 x3 x4 x5 k)"
  "soft_update_raising (returning sac) tau q = Inr (soft_update sac tau q)"
  "update_temperature_raising (returning sac) ent_coef t e h
   = Inr (update_temperature sac ent_coef t e h)"
  by (simp_all add: returning_def)

lemma cycle_eq_raising:
  "cycle sac actor qf ent_coef gamma tau g data actor_state ent_coef_state
   = cycle_raising (returning sac) actor qf ent_coef gamma tau g data actor_state ent_coef_state"
  by (intro ext) (simp add: cycle_def cycle_raising_def returning_simps)

lemma train_eq_raising:
  "train lib sac actor qf ent_coef gamma tau target_entropy g data
     n_updates qf_state actor_state ent_coef_state key
   = train_raising lib (returning sac) actor qf ent_coef gamma tau target_entropy g data
       n_updates qf_state actor_state ent_coef_state key"
  unfolding train_def train_raising_def cycle_eq_raising returning_simps ..

lemma jit_int32_out:
  "n < - (2 ^ 31) \<or> 2 ^ 31 \<le> n \<Longrightarrow> jit_int32 n = Inl OverflowError"
  by (auto simp: jit_int32_def)

lemma jit_int32_in:
  "- (2 ^ 31) \<le> n \<Longrightarrow> n < 2 ^ 31 \<Longrightarrow> jit_int32 n = Inr (word_of_int n)"
  by (simp add: jit_int32_def)

subsection \<open>The call log of the loop\<close>

lemma loop_log_Suc:
  "loop_log sac actor qf ent_coef gamma tau g data actor_state ent_coef_state st0 (Suc k) =
   loop_log sac actor qf ent_coef gamma tau g data actor_state ent_coef_state st0 k @
   cycle_log sac actor qf ent_coef gamma tau g data actor_state ent_coef_state k
     (loop_state sac actor qf ent_coef gamma tau g data actor_state ent_coef_state st0 k)"
  by (simp add: loop_log_def)

lemma loop_log_0:
  "loop_log sac actor qf ent_coef gamma tau g data actor_state ent_coef_state st0 0 = []"
  by (simp add: loop_log_def)

lemma kinds_loop_log:
  "map kind_of (loop_log sac actor qf ent_coef gamma tau g data actor_state ent_coef_state st0 k)
   = concat (replicate k [Critic, Soft])"
proof (induction k)
  case 0
  show ?case by (simp add: loop_log_0)
next
  case (Suc k)
  have "concat (replicate (Suc k) [Critic, Soft]) = concat (replicate k [Critic, Soft]) @ [Critic, Soft]"
  proof -
    have "replicate (Suc k) [Critic, Soft] = replicate k [Critic, Soft] @ [[Critic, Soft]]"
      by (simp add: replicate_append_same)
    then show ?thesis by (simp only: concat_append) simp
  qed
  then show ?case using Suc by (simp add: loop_log_Suc cycle_log_def)
qed

lemma critic_batches_append:
  "critic_batches (xs @ ys) = critic_batches xs @ critic_batches ys"
  by (induction xs rule: critic_batches.induct) simp_all




lemma critic_batches_loop_log:
  "critic_batches (loop_log sac actor qf ent_coef gamma tau g data actor_state ent_coef_state st0 k)
   = map (\<lambda>i. (micro_batch g i (observations data), micro_batch g i (actions data),
               micro_batch g i (next_observations data), micro_batch g i (rewards data),
               micro_batch g i (dones data))) [0..<k]"
  by (induction k) (simp_all add: loop_log_0 loop_log_Suc critic_batches_append cycle_log_def)


lemma critic_calls_append: "critic_calls (xs @ ys) = critic_calls xs @ critic_calls ys"
  by (simp add: critic_calls_def)

lemma critic_calls_simps:
  "critic_calls [] = []"
  "critic_calls (c # cs) = (if kind_of c = Critic then c # critic_calls cs else critic_calls cs)"
  by (simp_all add: critic_calls_def)

lemma critic_calls_loop_log_Suc:
  "critic_calls (loop_log sac actor qf ent_coef gamma tau g data actor_state ent_coef_state st0 (Suc k))
   = critic_calls (loop_log sac actor qf ent_coef gamma tau g data actor_state ent_coef_state st0 k) @
     [Update_critic gamma actor_state
        (l_qf_state (loop_state sac actor qf ent_coef gamma tau g data actor_state ent_coef_state st0 k))
        ent_coef_state
        (micro_batch g k (observations data)) (micro_batch g k (actions data))
        (micro_batch g k (next_observations data)) (micro_batch g k (rewards data))
        (micro_batch g k (dones data))
        (l_key (loop_state sac actor qf ent_coef gamma tau g data actor_state ent_coef_state st0 k))]"
  by (simp add: loop_log_Suc critic_calls_def cycle_log_def)

lemma forwards_loop_log:
  "list_all (forwards gamma tau)
     (loop_log sac actor qf ent_coef gamma tau g data actor_state ent_coef_state st0 k)"
  by (induction k) (simp_all add: loop_log_0 loop_log_Suc cycle_log_def del: loop_state.simps)



subsection \<open>\<^verbatim>\<open>_train\<close> on methods that may raise\<close>

lemma cycle_raising_cases:
  assumes g: "1 \<le> g" and d: "sliceable g data" and i: "i < nat g"
  shows "cycle_raising sac actor qf ent_coef gamma tau g data actor_state ent_coef_state (int i) st =
         (case update_critic_raising sac actor qf ent_coef gamma actor_state (l_qf_state st)
                 ent_coef_state
                 (micro_batch g i (observations data)) (micro_batch g i (actions data))
                 (micro_batch g i (next_observations data)) (micro_batch g i (rewards data))
                 (micro_batch g i (dones data)) (l_key st) of
            Inl e \<Rightarrow>
              ([Update_critic gamma actor_state (l_qf_state st) ent_coef_state
                  (micro_batch g i (observations data)) (micro_batch g i (actions data))
                  (micro_batch g i (next_observations data)) (micro_batch g i (rewards data))
                  (micro_batch g i (dones data)) (l_key st)], Inl e)
          | Inr (qf_state', (qf_loss_value, ent_coef_value), key') \<Rightarrow>
              (case soft_update_raising sac tau qf_state' of
                 Inl e \<Rightarrow>
                   ([Update_critic gamma actor_state (l_qf_state st) ent_coef_state
                       (micro_batch g i (observations data)) (micro_batch g i (actions data))
                       (micro_batch g i (next_observations data)) (micro_batch g i (rewards data))
                       (micro_batch g i (dones data)) (l_key st),
                     Soft_update tau qf_state'], Inl e)
               | Inr qf_state'' \<Rightarrow>
                   ([Update_critic gamma actor_state (l_qf_state st) ent_coef_state
                       (micro_batch g i (observations data)) (micro_batch g i (actions data))
                       (micro_batch g i (next_observations data)) (micro_batch g i (rewards data))
                       (micro_batch g i (dones data)) (l_key st),
                     Soft_update tau qf_state'],
                    Inr \<lparr>l_n_updates = l_n_updates st + 1, l_qf_state = qf_state'',
                         l_key = key', l_slice = Some (int i),
                         l_qf_loss_value = Some qf_loss_value,
                         l_ent_coef_value = Some ent_coef_value\<rparr>)))"
proof -
  have s1: "slice g (int i) (observations data) = Inr (micro_batch g i (observations data))"
    using g d i by (intro slice_micro_batch) (simp_all add: sliceable_def)
  have s2: "slice g (int i) (actions data) = Inr (micro_batch g i (actions data))"
    using g d i by (intro slice_micro_batch) (simp_all add: sliceable_def)
  have s3: "slice g (int i) (next_observations data) = Inr (micro_batch g i (next_observations data))"
    using g d i by (intro slice_micro_batch) (simp_all add: sliceable_def)
  have s4: "slice g (int i) (rewards data) = Inr (micro_batch g i (rewards data))"
    using g d i by (intro slice_micro_batch) (simp_all add: sliceable_def)
  have s5: "slice g (int i) (dones data) = Inr (micro_batch g i (dones data))"
    using g d i by (intro slice_micro_batch) (simp_all add: sliceable_def)
  show ?thesis
    by (simp add: cycle_raising_def Let_def s1 s2 s3 s4 s5 bind_lift_Inr bind_logged_call_Inr
        bind_logged_call_Inl return_def split: prod.splits sum.splits)
qed

lemma cycle_raising_outcome:
  assumes g: "1 \<le> g" and d: "sliceable g data" and i: "i < nat g"
    and run: "cycle_raising sac actor qf ent_coef gamma tau g data actor_state ent_coef_state
                (int i) st = (cs, r)"
  shows "cs \<noteq> []"
    and "list_all (forwards gamma tau) cs"
    and "hd cs = Update_critic gamma actor_state (l_qf_state st) ent_coef_state
                  (micro_batch g i (observations data)) (micro_batch g i (actions data))
                  (micro_batch g i (next_observations data)) (micro_batch g i (rewards data))
                  (micro_batch g i (dones data)) (l_key st)"
    and "raised_by_last_call lib sac actor qf ent_coef (cs, r)"
    and "r = Inr st' \<Longrightarrow> l_slice st' = Some (int i) \<and> l_qf_loss_value st' \<noteq> None
                          \<and> l_ent_coef_value st' \<noteq> None"
  using run unfolding cycle_raising_cases [OF g d i]
  by (auto simp: raised_by_last_call_def split: sum.splits prod.splits)

lemma loop_raising_outcome:
  assumes g: "1 \<le> g" and d: "sliceable g data"
  shows "(\<forall>j \<in> set js. j < nat g) \<Longrightarrow>
     train_loop (cycle_raising sac actor qf ent_coef gamma tau g data actor_state ent_coef_state)
       (map int js) st = (cs, r) \<Longrightarrow>
     list_all (forwards gamma tau) cs
     \<and> raised_by_last_call lib sac actor qf ent_coef (cs, r)
     \<and> (js \<noteq> [] \<longrightarrow> cs \<noteq> [] \<and>
          hd cs = Update_critic gamma actor_state (l_qf_state st) ent_coef_state
                    (micro_batch g (hd js) (observations data))
                    (micro_batch g (hd js) (actions data))
                    (micro_batch g (hd js) (next_observations data))
                    (micro_batch g (hd js) (rewards data))
                    (micro_batch g (hd js) (dones data)) (l_key st))
     \<and> (\<forall>st'. js \<noteq> [] \<longrightarrow> r = Inr st' \<longrightarrow>
          l_slice st' = Some (int (last js)) \<and> l_qf_loss_value st' \<noteq> None
          \<and> l_ent_coef_value st' \<noteq> None)"
proof (induction js arbitrary: st cs r)
  case Nil
  then show ?case by (auto simp: return_def raised_by_last_call_def)
next
  case (Cons j js)
  let ?body = "cycle_raising sac actor qf ent_coef gamma tau g data actor_state ent_coef_state"
  have j: "j < nat g" and js: "\<forall>j \<in> set js. j < nat g" using Cons.prems(1) by simp_all
  obtain cs1 r1 where c1: "?body (int j) st = (cs1, r1)" by (cases "?body (int j) st") auto
  note o = cycle_raising_outcome [OF g d j c1]
  show ?case
  proof (cases r1)
    case (Inl e)
    then have "cs = cs1" and "r = Inl e"
      using Cons.prems(2) c1 by (simp_all add: bind_Inl)
    then show ?thesis
      using o(1) o(2) o(3) o(4) [of lib] Inl by simp
  next
    case (Inr st1)
    obtain cs2 r2 where c2: "train_loop ?body (map int js) st1 = (cs2, r2)"
      by (cases "train_loop ?body (map int js) st1") auto
    have cr: "cs = cs1 @ cs2" "r = r2"
      using Cons.prems(2) c1 c2 Inr by (simp_all add: bind_Inr)
    note ih = Cons.IH [OF js c2]
    have p1: "list_all (forwards gamma tau) cs" using o(2) ih cr by simp
    have p2: "raised_by_last_call lib sac actor qf ent_coef (cs, r)"
    proof (cases r2)
      case l: (Inl e)
      then have "cs2 \<noteq> []" and "call_error lib sac actor qf ent_coef (last cs2) = Some e"
        using ih by (simp_all add: raised_by_last_call_def)
      then show ?thesis using cr l by (simp add: raised_by_last_call_def)
    next
      case (Inr a)
      then show ?thesis using cr by (simp add: raised_by_last_call_def)
    qed
    have p3: "cs \<noteq> [] \<and>
          hd cs = Update_critic gamma actor_state (l_qf_state st) ent_coef_state
                    (micro_batch g j (observations data)) (micro_batch g j (actions data))
                    (micro_batch g j (next_observations data)) (micro_batch g j (rewards data))
                    (micro_batch g j (dones data)) (l_key st)"
      using o(1) o(3) cr by simp
    have p4: "l_slice st' = Some (int (last (j # js))) \<and> l_qf_loss_value st' \<noteq> None
          \<and> l_ent_coef_value st' \<noteq> None" if "r = Inr st'" for st'
    proof (cases "js = []")
      case True
      then have "r2 = Inr st1" using c2 by (simp add: return_def)
      then have "st' = st1" using that cr by simp
      then show ?thesis using o(5) [OF Inr] True by simp
    next
      case False
      then show ?thesis using ih that cr by simp
    qed
    show ?thesis using p1 p2 p3 p4 by simp
  qed
qed

lemma train_raising_outcome:
  assumes g: "1 \<le> g" and d: "sliceable g data"
  shows "list_all (forwards gamma tau)
           (fst (train_raising lib sac actor qf ent_coef gamma tau target_entropy g data
                   n_updates qf_state actor_state ent_coef_state key))"
    and "raised_by_last_call lib sac actor qf ent_coef
           (train_raising lib sac actor qf ent_coef gamma tau target_entropy g data
              n_updates qf_state actor_state ent_coef_state key)"
    and "fst (train_raising lib sac actor qf ent_coef gamma tau target_entropy g data
                n_updates qf_state actor_state ent_coef_state key) \<noteq> []"
    and "hd (fst (train_raising lib sac actor qf ent_coef gamma tau target_entropy g data
                n_updates qf_state actor_state ent_coef_state key))
         = Update_critic gamma actor_state qf_state ent_coef_state
             (micro_batch g 0 (observations data)) (micro_batch g 0 (actions data))
             (micro_batch g 0 (next_observations data)) (micro_batch g 0 (rewards data))
             (micro_batch g 0 (dones data)) key"
proof -
  let ?st0 = "\<lparr>l_n_updates = n_updates, l_qf_state = qf_state, l_key = key,
                l_slice = None, l_qf_loss_value = None, l_ent_coef_value = None\<rparr>"
  let ?body = "cycle_raising sac actor qf ent_coef gamma tau g data actor_state ent_coef_state"
  let ?run = "train_raising lib sac actor qf ent_coef gamma tau target_entropy g data
                n_updates qf_state actor_state ent_coef_state key"
  obtain k where k: "nat g = Suc k" using g by (cases "nat g") auto
  have pos: "0 < nat g" using k by simp
  have ne: "[0..<nat g] \<noteq> []" using pos by simp
  have hd0: "hd [0..<nat g] = 0" using pos by (rule hd_upt)
  have lastk: "last [0..<nat g] = k" using last_upt [OF pos] k by simp
  obtain cs r where loop: "train_loop ?body (map int [0..<nat g]) ?st0 = (cs, r)"
    by (cases "train_loop ?body (map int [0..<nat g]) ?st0") auto
  have bnd: "\<forall>j \<in> set [0..<nat g]. j < nat g" by simp
  note o = loop_raising_outcome [OF g d bnd loop, of lib]
  have o1: "list_all (forwards gamma tau) cs" using o by simp
  have o2: "raised_by_last_call lib sac actor qf ent_coef (cs, r)" using o by simp
  have o3: "cs \<noteq> []"
    and o4: "hd cs = Update_critic gamma actor_state qf_state ent_coef_state
             (micro_batch g 0 (observations data)) (micro_batch g 0 (actions data))
             (micro_batch g 0 (next_observations data)) (micro_batch g 0 (rewards data))
             (micro_batch g 0 (dones data)) key"
    using o ne hd0 by simp_all
  have sl: "slice g (int k) (observations data) = Inr (micro_batch g k (observations data))"
    using g d k by (intro slice_micro_batch) (simp_all add: sliceable_def)
  have "list_all (forwards gamma tau) (fst ?run) \<and> raised_by_last_call lib sac actor qf ent_coef ?run
        \<and> fst ?run \<noteq> [] \<and> hd (fst ?run) = hd cs"
  proof (cases r)
    case (Inl e)
    then have "?run = (cs, Inl e)"
      by (simp add: train_raising_def py_range_def loop bind_Inl)
    then show ?thesis using o1 o2 o3 Inl by (simp add: raised_by_last_call_def)
  next
    case (Inr st)
    then have st: "l_slice st = Some (int k)" and lv: "l_qf_loss_value st \<noteq> None"
      and ev: "l_ent_coef_value st \<noteq> None"
      using o ne lastk by simp_all
    obtain ql el where qe: "l_qf_loss_value st = Some ql" "l_ent_coef_value st = Some el"
      using lv ev by auto
    let ?ua = "Update_actor actor_state (l_qf_state st) ent_coef_state
                 (micro_batch g k (observations data)) (l_key st)"
    show ?thesis
    proof (cases "update_actor lib actor qf ent_coef actor_state (l_qf_state st) ent_coef_state
                    (micro_batch g k (observations data)) (l_key st)")
      case ua: (Inl e)
      have "?run = (cs @ [?ua], Inl e)"
        by (simp add: train_raising_def py_range_def loop Inr bind_Inr st sl bind_lift_Inr
            ua bind_logged_call_Inl)
      then show ?thesis using o1 o3 ua by (simp add: raised_by_last_call_def)
    next
      case ua: (Inr res)
      obtain a' q' al k' h where res: "res = (a', q', al, k', h)" by (cases res) auto
      let ?ut = "Update_temperature target_entropy ent_coef_state h"
      show ?thesis
      proof (cases "update_temperature_raising sac ent_coef target_entropy ent_coef_state h")
        case ut: (Inl e)
        have "?run = (cs @ [?ua, ?ut], Inl e)"
          by (simp add: train_raising_def py_range_def loop Inr bind_Inr st sl bind_lift_Inr
              ua res bind_logged_call_Inr bind_logged_call_Inl ut)
        then show ?thesis using o1 o3 ut by (simp add: raised_by_last_call_def)
      next
        case ut: (Inr res2)
        have "fst ?run = cs @ [?ua, ?ut] \<and> (\<exists>v. snd ?run = Inr v)"
          by (simp add: train_raising_def py_range_def loop Inr bind_Inr st sl bind_lift_Inr
              ua res bind_logged_call_Inr ut qe return_def split: prod.splits)
        then show ?thesis using o1 o3
          by (cases ?run) (auto simp: raised_by_last_call_def)
      qed
    qed
  qed
  then show "list_all (forwards gamma tau) (fst ?run)"
    and "raised_by_last_call lib sac actor qf ent_coef ?run"
    and "fst ?run \<noteq> []"
    and "hd (fst ?run) = Update_critic gamma actor_state qf_state ent_coef_state
             (micro_batch g 0 (observations data)) (micro_batch g 0 (actions data))
             (micro_batch g 0 (next_observations data)) (micro_batch g 0 (rewards data))
             (micro_batch g 0 (dones data)) key"
    using o4 by simp_all
qed

subsection \<open>The keys of a run\<close>

lemma train_raising_nonpositive:
  assumes "g < 1"
  shows "train_raising lib sac actor qf ent_coef gamma tau target_entropy g data
           n_updates qf_state actor_state ent_coef_state key = ([], Inl UnboundLocalError)"
proof -
  have "py_range g = []" using assms by (simp add: py_range_def)
  then show ?thesis
    by (simp add: train_raising_def bind_return raise_def)
qed












subsection \<open>The stubs meet the hypotheses\<close>

lemma stub_sliceable: "sliceable 2 stub_data"
  by (simp add: sliceable_def stub_data_def)

lemma stub_well_shaped: "well_shaped stub_actor stub_qf"
  by (simp add: well_shaped_def stub_actor_def stub_qf_def)



section \<open>The claims\<close>

text \<open>
  C1, as stated, fails. \<^verbatim>\<open>_train\<close> is compiled by \<^verbatim>\<open>jax.jit\<close> and \<open>n_updates\<close> is not a static
  argument, so the counter is a signed 32-bit integer. Called with \<open>n_updates = 2147483647\<close>
  and \<open>gradient_steps = 2\<close> it makes its two cycles and returns \<open>-2147483647\<close>, not
  \<open>2147483647 + 2\<close>.
\<close>

theorem train_counter_wraps:
  "sint (2147483647 :: 32 word) = 2147483647 \<and>
   map kind_of
     (fst (train stub_jax stub_sac stub_actor stub_qf stub_ent_coef (99 / 100) (5 / 1000)
             (- 1) 2 stub_data 2147483647 stub_qf_state stub_state stub_state 7))
     = [Critic, Soft, Critic, Soft, Actor, Temperature] \<and>
   map_sum id result_n_updates
     (snd (train stub_jax stub_sac stub_actor stub_qf stub_ent_coef (99 / 100) (5 / 1000)
             (- 1) 2 stub_data 2147483647 stub_qf_state stub_state stub_state 7))
     = Inr (- 2147483647) \<and>
   sint (- 2147483647 :: 32 word) = - 2147483647 \<and>
   (- 2147483647 :: int) \<noteq> 2147483647 + 2"
  by code_simp

text \<open>
  C1, amended. For \<open>gradient_steps = n \<ge> 1\<close>, a batch whose arrays have lengths divisible by
  \<open>n\<close> and networks that keep the shape contract, \<^verbatim>\<open>_train\<close> makes exactly \<open>n\<close> cycles, each
  one critic update followed by one soft update and each applied to the critic state and key
  that the cycle before left (\<open>loop_state\<close>, \<open>loop_log\<close>), then exactly one actor update on
  the state after the last cycle and exactly one temperature update, and returns the states
  that these updates produced. The returned \<open>n_updates\<close> is the input plus \<open>n\<close> in signed
  32-bit arithmetic, which wraps around: it is the integer sum whenever that is below
  \<open>2^31\<close>. A Python integer \<open>n_updates\<close> outside the signed 32-bit range is refused with
  \<^verbatim>\<open>OverflowError\<close> before anything runs; one inside it is passed on as it is.
\<close>

theorem train_update_counts:
  assumes "1 \<le> gradient_steps" and "sliceable gradient_steps data" and "well_shaped actor qf"
  shows
    "let st0 = \<lparr>l_n_updates = n_updates, l_qf_state = qf_state, l_key = key,
                  l_slice = None, l_qf_loss_value = None, l_ent_coef_value = None\<rparr>;
         pre = loop_state sac actor qf ent_coef gamma tau gradient_steps data actor_state
                 ent_coef_state st0 (nat gradient_steps - 1);
         fin = loop_state sac actor qf ent_coef gamma tau gradient_steps data actor_state
                 ent_coef_state st0 (nat gradient_steps);
         crit = critic_call sac actor qf ent_coef gamma gradient_steps data actor_state
                 ent_coef_state (nat gradient_steps - 1) pre;
         a1 = micro_batch gradient_steps (nat gradient_steps - 1) (observations data)
     in (\<exists>actor_state' actor_loss_value key' entropy.
           update_actor lib actor qf ent_coef actor_state (l_qf_state fin) ent_coef_state a1
             (l_key fin)
           = Inr (actor_state', l_qf_state fin, actor_loss_value, key', entropy)
         \<and> train lib sac actor qf ent_coef gamma tau target_entropy gradient_steps data
             n_updates qf_state actor_state ent_coef_state key
           = (loop_log sac actor qf ent_coef gamma tau gradient_steps data actor_state
                ent_coef_state st0 (nat gradient_steps)
              @ [Update_actor actor_state (l_qf_state fin) ent_coef_state a1 (l_key fin),
                 Update_temperature target_entropy ent_coef_state entropy],
              Inr (n_updates + word_of_int gradient_steps, l_qf_state fin, actor_state',
                   fst (update_temperature sac ent_coef target_entropy ent_coef_state entropy),
                   key', (actor_loss_value, fst (fst (snd crit)), snd (fst (snd crit))))))
      \<and> map kind_of (fst (train lib sac actor qf ent_coef gamma tau target_entropy
                           gradient_steps data n_updates qf_state actor_state ent_coef_state key))
        = concat (replicate (nat gradient_steps) [Critic, Soft]) @ [Actor, Temperature]
      \<and> (sint n_updates + gradient_steps < 2 ^ 31 \<longrightarrow>
           sint (n_updates + word_of_int gradient_steps) = sint n_updates + gradient_steps)
      \<and> (n < - (2 ^ 31) \<or> 2 ^ 31 \<le> n \<longrightarrow>
           train_jit lib (returning sac) actor qf ent_coef gamma tau target_entropy
             gradient_steps data n qf_state actor_state ent_coef_state key
           = ([], Inl OverflowError))
      \<and> (- (2 ^ 31) \<le> n \<and> n < 2 ^ 31 \<longrightarrow>
           train_jit lib (returning sac) actor qf ent_coef gamma tau target_entropy
             gradient_steps data n qf_state actor_state ent_coef_state key
           = train lib sac actor qf ent_coef gamma tau target_entropy
               gradient_steps data (word_of_int n) qf_state actor_state ent_coef_state key)"
proof -
  let ?st0 = "\<lparr>l_n_updates = n_updates, l_qf_state = qf_state, l_key = key,
                l_slice = None, l_qf_loss_value = None, l_ent_coef_value = None\<rparr>"
  let ?pre = "loop_state sac actor qf ent_coef gamma tau gradient_steps data actor_state
                ent_coef_state ?st0 (nat gradient_steps - 1)"
  let ?fin = "loop_state sac actor qf ent_coef gamma tau gradient_steps data actor_state
                ent_coef_state ?st0 (nat gradient_steps)"
  let ?crit = "critic_call sac actor qf ent_coef gamma gradient_steps data actor_state
                 ent_coef_state (nat gradient_steps - 1) ?pre"
  let ?a1 = "micro_batch gradient_steps (nat gradient_steps - 1) (observations data)"
  let ?run = "train lib sac actor qf ent_coef gamma tau target_entropy gradient_steps data
             n_updates qf_state actor_state ent_coef_state key"
  obtain actor_state' al ent where ua:
    "update_actor lib actor qf ent_coef actor_state (l_qf_state ?fin) ent_coef_state ?a1 (l_key ?fin)
     = Inr (actor_state', l_qf_state ?fin, al, fst (random_split3 lib (l_key ?fin)), ent)"
    using update_actor_ok [OF assms(3)] by blast
  have run:
    "?run = (loop_log sac actor qf ent_coef gamma tau gradient_steps data actor_state
                ent_coef_state ?st0 (nat gradient_steps)
              @ [Update_actor actor_state (l_qf_state ?fin) ent_coef_state ?a1 (l_key ?fin),
                 Update_temperature target_entropy ent_coef_state ent],
              Inr (n_updates + word_of_int gradient_steps, l_qf_state ?fin, actor_state',
                   fst (update_temperature sac ent_coef target_entropy ent_coef_state ent),
                   fst (random_split3 lib (l_key ?fin)),
                   (al, fst (fst (snd ?crit)), snd (fst (snd ?crit)))))"
    unfolding train_closed [OF assms(1,2)] Let_def ua by simp
  have kinds: "map kind_of (fst ?run)
        = concat (replicate (nat gradient_steps) [Critic, Soft]) @ [Actor, Temperature]"
    using ua unfolding train_closed [OF assms(1,2)] Let_def
    by (simp add: kinds_loop_log)
  have wrap: "sint n_updates + gradient_steps < 2 ^ 31 \<longrightarrow>
           sint (n_updates + word_of_int gradient_steps) = sint n_updates + gradient_steps"
  proof
    assume lt: "sint n_updates + gradient_steps < 2 ^ 31"
    have "- (2 ^ 31) \<le> sint n_updates" using sint_ge [of n_updates] by simp
    then have "- (2 ^ 31) \<le> sint n_updates + gradient_steps" using assms(1) by linarith
    then show "sint (n_updates + word_of_int gradient_steps) = sint n_updates + gradient_steps"
      using lt by (rule sint_add_no_overflow)
  qed
  have refuse: "n < - (2 ^ 31) \<or> 2 ^ 31 \<le> n \<longrightarrow>
           train_jit lib (returning sac) actor qf ent_coef gamma tau target_entropy
             gradient_steps data n qf_state actor_state ent_coef_state key
           = ([], Inl OverflowError)"
    by (auto simp: train_jit_def jit_int32_out raise_def)
  have accept: "- (2 ^ 31) \<le> n \<and> n < 2 ^ 31 \<longrightarrow>
           train_jit lib (returning sac) actor qf ent_coef gamma tau target_entropy
             gradient_steps data n qf_state actor_state ent_coef_state key
           = train lib sac actor qf ent_coef gamma tau target_entropy
               gradient_steps data (word_of_int n) qf_state actor_state ent_coef_state key"
    by (simp add: train_jit_def jit_int32_in train_eq_raising)
  show ?thesis
    unfolding Let_def using ua run kinds wrap refuse accept by blast
qed

theorem train_update_counts_witness:
  "1 \<le> (2::int) \<and> sliceable 2 stub_data \<and> well_shaped stub_actor stub_qf \<and>
   train stub_jax stub_sac stub_actor stub_qf stub_ent_coef (99 / 100) (5 / 1000) (- 1) 2
     stub_data 0 stub_qf_state stub_state stub_state 7
   = ([Update_critic (99 / 100) stub_state
         \<lparr>opt_step = 0, params = 1, opt_state = (), target_params = 0\<rparr>
         stub_state [1, 2] [11, 12] [2, 3] [5, 6] [0, 0] 7,
       Soft_update (5 / 1000) \<lparr>opt_step = 1, params = 1, opt_state = (), target_params = 0\<rparr>,
       Update_critic (99 / 100) stub_state
         \<lparr>opt_step = 1, params = 1, opt_state = (), target_params = 1 / 200\<rparr>
         stub_state [3, 4] [13, 14] [4, 5] [7, 8] [0, 1] 22,
       Soft_update (5 / 1000)
         \<lparr>opt_step = 2, params = 1, opt_state = (), target_params = 1 / 200\<rparr>,
       Update_actor stub_state
         \<lparr>opt_step = 2, params = 1, opt_state = (), target_params = 399 / 40000\<rparr>
         stub_state [3, 4] 67,
       Update_temperature (- 1) stub_state (7 / 2)],
      Inr (2, \<lparr>opt_step = 2, params = 1, opt_state = (), target_params = 399 / 40000\<rparr>,
           \<lparr>opt_step = 1, params = 1, opt_state = ()\<rparr>,
           \<lparr>opt_step = 1, params = 2, opt_state = ()\<rparr>, 202, - (25 / 4), 7, 1 / 2)) \<and>
   map kind_of (fst (train stub_jax stub_sac stub_actor stub_qf stub_ent_coef (99 / 100) (5 / 1000)
                       (- 1) 2 stub_data 0 stub_qf_state stub_state stub_state 7))
     = [Critic, Soft, Critic, Soft, Actor, Temperature] \<and>
   sint (0 :: 32 word) + 2 < 2 ^ 31 \<and>
   sint ((0 :: 32 word) + word_of_int 2) = sint (0 :: 32 word) + 2 \<and>
   2 ^ 31 \<le> (2147483648 :: int) \<and>
   train_jit stub_jax (returning stub_sac) stub_actor stub_qf stub_ent_coef (99 / 100) (5 / 1000)
     (- 1) 2 stub_data 2147483648 stub_qf_state stub_state stub_state 7
   = ([], Inl OverflowError) \<and>
   - (2 ^ 31) \<le> (5 :: int) \<and> (5 :: int) < 2 ^ 31 \<and>
   train_jit stub_jax (returning stub_sac) stub_actor stub_qf stub_ent_coef (99 / 100) (5 / 1000)
     (- 1) 2 stub_data 5 stub_qf_state stub_state stub_state 7
   = train stub_jax stub_sac stub_actor stub_qf stub_ent_coef (99 / 100) (5 / 1000)
       (- 1) 2 stub_data (word_of_int 5) stub_qf_state stub_state stub_state 7"
proof -
  have h1: "1 \<le> (2::int)" by simp
  have run: "train stub_jax stub_sac stub_actor stub_qf stub_ent_coef (99 / 100) (5 / 1000) (- 1) 2
     stub_data 0 stub_qf_state stub_state stub_state 7
   = ([Update_critic (99 / 100) stub_state
         \<lparr>opt_step = 0, params = 1, opt_state = (), target_params = 0\<rparr>
         stub_state [1, 2] [11, 12] [2, 3] [5, 6] [0, 0] 7,
       Soft_update (5 / 1000) \<lparr>opt_step = 1, params = 1, opt_state = (), target_params = 0\<rparr>,
       Update_critic (99 / 100) stub_state
         \<lparr>opt_step = 1, params = 1, opt_state = (), target_params = 1 / 200\<rparr>
         stub_state [3, 4] [13, 14] [4, 5] [7, 8] [0, 1] 22,
       Soft_update (5 / 1000)
         \<lparr>opt_step = 2, params = 1, opt_state = (), target_params = 1 / 200\<rparr>,
       Update_actor stub_state
         \<lparr>opt_step = 2, params = 1, opt_state = (), target_params = 399 / 40000\<rparr>
         stub_state [3, 4] 67,
       Update_temperature (- 1) stub_state (7 / 2)],
      Inr (2, \<lparr>opt_step = 2, params = 1, opt_state = (), target_params = 399 / 40000\<rparr>,
           \<lparr>opt_step = 1, params = 1, opt_state = ()\<rparr>,
           \<lparr>opt_step = 1, params = 2, opt_state = ()\<rparr>, 202, - (25 / 4), 7, 1 / 2))"
    by code_simp
  note a = train_update_counts [OF h1 stub_sliceable stub_well_shaped,
        where lib = stub_jax and sac = stub_sac and ent_coef = stub_ent_coef
          and gamma = "99 / 100" and tau = "5 / 1000" and target_entropy = "- 1"
          and n_updates = 0 and qf_state = stub_qf_state and actor_state = stub_state
          and ent_coef_state = stub_state and key = 7 and n = 2147483648, unfolded Let_def]
  note b = train_update_counts [OF h1 stub_sliceable stub_well_shaped,
        where lib = stub_jax and sac = stub_sac and ent_coef = stub_ent_coef
          and gamma = "99 / 100" and tau = "5 / 1000" and target_entropy = "- 1"
          and n_updates = 0 and qf_state = stub_qf_state and actor_state = stub_state
          and ent_coef_state = stub_state and key = 7 and n = 5, unfolded Let_def]
  have kinds: "map kind_of (fst (train stub_jax stub_sac stub_actor stub_qf stub_ent_coef (99 / 100)
                       (5 / 1000) (- 1) 2 stub_data 0 stub_qf_state stub_state stub_state 7))
     = [Critic, Soft, Critic, Soft, Actor, Temperature]"
    using a by (simp add: numeral_2_eq_2)
  have wrap: "sint ((0 :: 32 word) + word_of_int 2) = sint (0 :: 32 word) + 2"
    using a by simp
  have refuse: "train_jit stub_jax (returning stub_sac) stub_actor stub_qf stub_ent_coef (99 / 100)
     (5 / 1000) (- 1) 2 stub_data 2147483648 stub_qf_state stub_state stub_state 7
   = ([], Inl OverflowError)"
    using a by simp
  have accept: "train_jit stub_jax (returning stub_sac) stub_actor stub_qf stub_ent_coef (99 / 100)
     (5 / 1000) (- 1) 2 stub_data 5 stub_qf_state stub_state stub_state 7
   = train stub_jax stub_sac stub_actor stub_qf stub_ent_coef (99 / 100) (5 / 1000)
       (- 1) 2 stub_data (word_of_int 5) stub_qf_state stub_state stub_state 7"
    using b by simp
  show ?thesis
    using h1 stub_sliceable stub_well_shaped run kinds wrap refuse accept by simp
qed

text \<open>
  C2. In \<^verbatim>\<open>update_actor\<close>, on a batch of \<open>B > 0\<close> rows and an ensemble of \<open>E > 0\<close> critics
  (log-probabilities \<open>lp\<close> with \<open>B\<close> rows, critic output \<open>q\<close> with \<open>E\<close> members of \<open>B\<close> rows
  each, both taken at the sampled actions), the ensemble is reduced by its mean over the
  members, \<open>mean_Q j = (\<Sum>e<E. q e j) / E\<close>; the actor loss is the mean over the batch of
  \<open>temperature \<cdot> lp j - mean_Q j\<close>; the entropy estimate is the mean over the batch of
  \<open>- lp j\<close>.
\<close>

theorem update_actor_loss:
  assumes sp: "random_split3 lib key = (key', dropout_key, noise_key)"
    and lp: "lp = log_prob (actor (params actor_state) obs)
                    (sample (actor (params actor_state) obs) noise_key)"
    and q: "q = qf (params qf_state) obs (sample (actor (params actor_state) obs) noise_key)
                  dropout_key"
    and len: "length lp = B" and pos: "0 < B"
    and ne: "q \<noteq> []" and rect: "\<forall>row \<in> set q. length row = B"
  shows "\<exists>actor_state'.
           update_actor lib actor qf ent_coef actor_state qf_state ent_coef_state obs key
           = Inr (actor_state', qf_state,
                  (\<Sum>j < B. ent_coef (params ent_coef_state) * lp ! j
                              - (\<Sum>e < length q. q ! e ! j) / real (length q)) / real B,
                  key',
                  (\<Sum>j < B. - lp ! j) / real B)"
proof -
  let ?t = "ent_coef (params ent_coef_state)"
  have ax: "jnp_mean_axis0 q = map (\<lambda>j. (\<Sum>e < length q. q ! e ! j) / real (length q)) [0..<B]"
    by (rule jnp_mean_axis0_rect [OF ne rect])
  have bc: "broadcast2 (-) (map ((*) ?t) lp) (jnp_mean_axis0 q)
            = Inr (map (\<lambda>j. ?t * lp ! j - (\<Sum>e < length q. q ! e ! j) / real (length q)) [0..<B])"
  proof -
    have "map2 (-) (map ((*) ?t) lp)
            (map (\<lambda>j. (\<Sum>e < length q. q ! e ! j) / real (length q)) [0..<B])
          = map (\<lambda>j. ?t * lp ! j - (\<Sum>e < length q. q ! e ! j) / real (length q)) [0..<B]"
      using len by (intro nth_equalityI) simp_all
    then show ?thesis using len by (simp add: broadcast2_def ax)
  qed
  have m1: "jnp_mean (map (\<lambda>j. ?t * lp ! j - (\<Sum>e < length q. q ! e ! j) / real (length q)) [0..<B])
            = (\<Sum>j < B. ?t * lp ! j - (\<Sum>e < length q. q ! e ! j) / real (length q)) / real B"
    by (simp add: jnp_mean_def sum_list_sum_nth atLeast0LessThan)
  have m2: "- jnp_mean lp = (\<Sum>j < B. - lp ! j) / real B"
    using len by (simp add: jnp_mean_def sum_list_sum_nth atLeast0LessThan sum_negf)
  have "actor_loss actor qf ent_coef qf_state ent_coef_state obs dropout_key noise_key
          (params actor_state)
        = Inr ((\<Sum>j < B. ?t * lp ! j - (\<Sum>e < length q. q ! e ! j) / real (length q)) / real B,
               (\<Sum>j < B. - lp ! j) / real B)"
    unfolding actor_loss_def Let_def lp [symmetric] q [symmetric] bc
    by (simp add: m1 m2)
  then show ?thesis
    by (simp add: update_actor_def sp Let_def)
qed

theorem update_actor_loss_witness:
  "random_split3 stub_jax 67 = (202, 203, 204)
   \<and> [- 3, - 4] = log_prob (stub_actor (params stub_state) [3, 4])
                    (sample (stub_actor (params stub_state) [3, 4]) 204)
   \<and> [[3, 4], [5, 6]] = stub_qf (params stub_qf_state) [3, 4]
                    (sample (stub_actor (params stub_state) [3, 4]) 204) 203
   \<and> length [- 3, - 4 :: real] = 2 \<and> 0 < (2::nat)
   \<and> [[3, 4], [5, 6 :: real]] \<noteq> [] \<and> map length [[3, 4], [5, 6 :: real]] = [2, 2]
   \<and> (\<exists>actor_state'.
         update_actor stub_jax stub_actor stub_qf stub_ent_coef stub_state stub_qf_state stub_state
           [3, 4] 67
         = Inr (actor_state', stub_qf_state, - (25 / 4), 202, 7 / 2))"
proof -
  have sp: "random_split3 stub_jax 67 = (202, 203, 204)"
    by (simp add: stub_jax_def)
  have lp: "[- 3, - 4] = log_prob (stub_actor (params stub_state) [3, 4])
                    (sample (stub_actor (params stub_state) [3, 4]) 204)"
    by (simp add: stub_actor_def)
  have q: "[[3, 4], [5, 6]] = stub_qf (params stub_qf_state) [3, 4]
                    (sample (stub_actor (params stub_state) [3, 4]) 204) 203"
    by (simp add: stub_actor_def stub_qf_def)
  have len: "length [- 3, - 4 :: real] = 2" and pos: "0 < (2::nat)"
    and ne: "[[3, 4], [5, 6 :: real]] \<noteq> []"
    and rect: "\<forall>row \<in> set [[3, 4], [5, 6 :: real]]. length row = 2"
    by simp_all
  have two: "{..<2::nat} = {0, 1}" by auto
  have "\<exists>actor_state'.
         update_actor stub_jax stub_actor stub_qf stub_ent_coef stub_state stub_qf_state stub_state
           [3, 4] 67
         = Inr (actor_state', stub_qf_state, - (25 / 4), 202, 7 / 2)"
    using update_actor_loss [where lib = stub_jax and actor = stub_actor and qf = stub_qf
        and actor_state = stub_state and qf_state = stub_qf_state and obs = "[3, 4]"
        and ent_coef = stub_ent_coef and ent_coef_state = stub_state,
        OF sp lp q len pos ne rect]
    by (simp add: two stub_ent_coef_def)
  moreover have "map length [[3, 4], [5, 6 :: real]] = [2, 2]" by simp
  ultimately show ?thesis
    by (intro conjI sp lp q len pos ne)
qed





text \<open>
  C5. For \<open>gradient_steps \<ge> 1\<close>: if the length of one of the five arrays is not divisible by
  \<open>gradient_steps\<close>, \<^verbatim>\<open>_train\<close> raises \<^verbatim>\<open>AssertionError\<close> before it has called any update
  function; if all the lengths are divisible, \<^verbatim>\<open>_train\<close> does not raise
  \<^verbatim>\<open>AssertionError\<close>.
\<close>

theorem train_assertion_iff:
  assumes "1 \<le> gradient_steps"
  shows "(\<not> sliceable gradient_steps data \<longrightarrow>
            train lib sac actor qf ent_coef gamma tau target_entropy
              gradient_steps data n_updates qf_state actor_state ent_coef_state key
            = ([], Inl AssertionError))
       \<and> (sliceable gradient_steps data \<longrightarrow>
            snd (train lib sac actor qf ent_coef gamma tau target_entropy
                   gradient_steps data n_updates qf_state actor_state ent_coef_state key)
            \<noteq> Inl AssertionError)"
proof (intro conjI impI)
  assume "\<not> sliceable gradient_steps data"
  then show "train lib sac actor qf ent_coef gamma tau target_entropy
              gradient_steps data n_updates qf_state actor_state ent_coef_state key
            = ([], Inl AssertionError)"
    by (rule train_not_sliceable [OF assms])
next
  assume d: "sliceable gradient_steps data"
  show "snd (train lib sac actor qf ent_coef gamma tau target_entropy
                   gradient_steps data n_updates qf_state actor_state ent_coef_state key)
            \<noteq> Inl AssertionError"
    unfolding train_closed [OF assms d] Let_def
    by (auto split: sum.splits simp: update_actor_not_assertion)
qed

theorem train_assertion_iff_witness:
  "1 \<le> (3::int) \<and> \<not> sliceable 3 stub_data \<and>
   train stub_jax stub_sac stub_actor stub_qf stub_ent_coef (99 / 100) (5 / 1000)
     (- 1) 3 stub_data 0 stub_qf_state stub_state stub_state 7 = ([], Inl AssertionError) \<and>
   1 \<le> (2::int) \<and> sliceable 2 stub_data \<and>
   snd (train stub_jax stub_sac stub_actor stub_qf stub_ent_coef (99 / 100) (5 / 1000)
          (- 1) 2 stub_data 0 stub_qf_state stub_state stub_state 7) \<noteq> Inl AssertionError"
proof -
  have h3: "1 \<le> (3::int)" and h2: "1 \<le> (2::int)" by simp_all
  have n3: "\<not> sliceable 3 stub_data"
    by (simp add: sliceable_def stub_data_def)
  show ?thesis
    using h3 h2 n3 stub_sliceable
      train_assertion_iff [OF h3, where data = stub_data
          and lib = stub_jax and sac = stub_sac and actor = stub_actor and qf = stub_qf
          and ent_coef = stub_ent_coef
          and gamma = "99 / 100" and tau = "5 / 1000" and target_entropy = "- 1"
          and n_updates = 0 and qf_state = stub_qf_state and actor_state = stub_state
          and ent_coef_state = stub_state and key = 7]
      train_assertion_iff [OF h2, where data = stub_data
          and lib = stub_jax and sac = stub_sac and actor = stub_actor and qf = stub_qf
          and ent_coef = stub_ent_coef
          and gamma = "99 / 100" and tau = "5 / 1000" and target_entropy = "- 1"
          and n_updates = 0 and qf_state = stub_qf_state and actor_state = stub_state
          and ent_coef_state = stub_state and key = 7]
    by simp
qed

text \<open>
  C6, as stated, fails. A caller asks for \<open>tau = 2\<close>, outside \<open>(0, 1]\<close>, and \<open>gamma = 5\<close>,
  outside \<open>(0, 1)\<close>. \<^verbatim>\<open>DroQ_SAC.__init__\<close> hands both to the parent constructor as they are;
  with a parent that stores its arguments the object is built and holds \<open>2\<close> and \<open>5\<close>.
  \<^verbatim>\<open>_train\<close>, invoked with these values on methods that do not fail, does not abort: it calls
  both critic updates with \<open>gamma = 5\<close> and both soft updates with \<open>tau = 2\<close>, and returns.
\<close>

theorem train_runs_with_invalid_rates:
  "\<not> (0 < (2::real) \<and> (2::real) \<le> 1) \<and> \<not> (0 < (5::real) \<and> (5::real) < 1) \<and>
   kw_tau (SAC_kwargs_of bad_kwargs) = 2 \<and> kw_gamma (SAC_kwargs_of bad_kwargs) = 5 \<and>
   map_sum id obj_tau (DroQ_SAC_init storing_SAC_init bad_kwargs) = Inr 2 \<and>
   map_sum id obj_gamma (DroQ_SAC_init storing_SAC_init bad_kwargs) = Inr 5 \<and>
   map_sum id obj_gradient_steps (DroQ_SAC_init storing_SAC_init bad_kwargs) = Inr 2 \<and>
   train stub_jax stub_sac stub_actor stub_qf stub_ent_coef 5 2 (- 1) 2 stub_data 0
     stub_qf_state stub_state stub_state 7
   = ([Update_critic 5 stub_state \<lparr>opt_step = 0, params = 1, opt_state = (), target_params = 0\<rparr>
         stub_state [1, 2] [11, 12] [2, 3] [5, 6] [0, 0] 7,
       Soft_update 2 \<lparr>opt_step = 1, params = 1, opt_state = (), target_params = 0\<rparr>,
       Update_critic 5 stub_state \<lparr>opt_step = 1, params = 1, opt_state = (), target_params = 2\<rparr>
         stub_state [3, 4] [13, 14] [4, 5] [7, 8] [0, 1] 22,
       Soft_update 2 \<lparr>opt_step = 2, params = 1, opt_state = (), target_params = 2\<rparr>,
       Update_actor stub_state \<lparr>opt_step = 2, params = 1, opt_state = (), target_params = 0\<rparr>
         stub_state [3, 4] 67,
       Update_temperature (- 1) stub_state (7 / 2)],
      Inr (2, \<lparr>opt_step = 2, params = 1, opt_state = (), target_params = 0\<rparr>,
           \<lparr>opt_step = 1, params = 1, opt_state = ()\<rparr>,
           \<lparr>opt_step = 1, params = 2, opt_state = ()\<rparr>, 202, - (25 / 4), 7, 1 / 2))"
proof -
  have run: "train stub_jax stub_sac stub_actor stub_qf stub_ent_coef 5 2 (- 1) 2 stub_data 0
     stub_qf_state stub_state stub_state 7
   = ([Update_critic 5 stub_state \<lparr>opt_step = 0, params = 1, opt_state = (), target_params = 0\<rparr>
         stub_state [1, 2] [11, 12] [2, 3] [5, 6] [0, 0] 7,
       Soft_update 2 \<lparr>opt_step = 1, params = 1, opt_state = (), target_params = 0\<rparr>,
       Update_critic 5 stub_state \<lparr>opt_step = 1, params = 1, opt_state = (), target_params = 2\<rparr>
         stub_state [3, 4] [13, 14] [4, 5] [7, 8] [0, 1] 22,
       Soft_update 2 \<lparr>opt_step = 2, params = 1, opt_state = (), target_params = 2\<rparr>,
       Update_actor stub_state \<lparr>opt_step = 2, params = 1, opt_state = (), target_params = 0\<rparr>
         stub_state [3, 4] 67,
       Update_temperature (- 1) stub_state (7 / 2)],
      Inr (2, \<lparr>opt_step = 2, params = 1, opt_state = (), target_params = 0\<rparr>,
           \<lparr>opt_step = 1, params = 1, opt_state = ()\<rparr>,
           \<lparr>opt_step = 1, params = 2, opt_state = ()\<rparr>, 202, - (25 / 4), 7, 1 / 2))"
    by code_simp
  have init: "kw_tau (SAC_kwargs_of bad_kwargs) = 2" "kw_gamma (SAC_kwargs_of bad_kwargs) = 5"
    "map_sum id obj_tau (DroQ_SAC_init storing_SAC_init bad_kwargs) = Inr 2"
    "map_sum id obj_gamma (DroQ_SAC_init storing_SAC_init bad_kwargs) = Inr 5"
    "map_sum id obj_gradient_steps (DroQ_SAC_init storing_SAC_init bad_kwargs) = Inr 2"
    by (simp_all add: DroQ_SAC_init_def storing_SAC_init_def bad_kwargs_def DroQ_defaults_def
        SAC_kwargs_of_def Let_def)
  show ?thesis using run init by simp
qed

text \<open>
  C6, amended. Neither \<^verbatim>\<open>DroQ_SAC.__init__\<close> nor \<^verbatim>\<open>_train\<close> checks \<open>tau\<close> or \<open>gamma\<close>.
  The constructor passes \<open>tau\<close>, \<open>gamma\<close> and \<open>gradient_steps\<close> to the parent constructor
  unchanged and adds no failure of its own but one: it raises what the parent raises, raises
  \<^verbatim>\<open>TypeError\<close> when the parent leaves \<^verbatim>\<open>policy_kwargs\<close> unset, and returns the parent's
  object with the two entries written otherwise. For \<open>gradient_steps \<ge> 1\<close> and divisible
  lengths, whatever \<open>tau\<close> and \<open>gamma\<close> are and whatever the methods of \<^verbatim>\<open>SAC\<close> do, \<^verbatim>\<open>_train\<close>
  first calls the critic update with the given \<open>gamma\<close> on the first micro-batch, passes
  \<open>gamma\<close> to every critic update and \<open>tau\<close> to every soft update it calls, and raises no
  exception but the one raised by the update function it called last. A \<open>gradient_steps\<close>
  below 1 is not checked either, but it does abort the invocation before any update function
  is called: the loop body never runs, and the call of \<^verbatim>\<open>slice\<close> after the loop finds the
  name unbound.
\<close>

theorem train_no_rate_check:
  "kw_tau (SAC_kwargs_of kw) = kw_tau kw
   \<and> kw_gamma (SAC_kwargs_of kw) = kw_gamma kw
   \<and> kw_gradient_steps (SAC_kwargs_of kw) = kw_gradient_steps kw
   \<and> (SAC_init (SAC_kwargs_of kw) = Inl e \<longrightarrow> DroQ_SAC_init SAC_init kw = Inl e)
   \<and> (SAC_init (SAC_kwargs_of kw) = Inr parent_self \<and> policy_kwargs parent_self = None \<longrightarrow>
        DroQ_SAC_init SAC_init kw = Inl TypeError)
   \<and> (SAC_init (SAC_kwargs_of kw) = Inr parent_self \<and> policy_kwargs parent_self = Some d \<longrightarrow>
        DroQ_SAC_init SAC_init kw
        = Inr (parent_self\<lparr>policy_kwargs :=
                 Some (d(''dropout_rate'' \<mapsto> PyFloat (kw_dropout_rate kw),
                         ''layer_norm'' \<mapsto> PyBool (kw_layer_norm kw)))\<rparr>))
   \<and> (1 \<le> gradient_steps \<and> sliceable gradient_steps data \<longrightarrow>
        fst (train_raising lib sac actor qf ent_coef gamma tau target_entropy
               gradient_steps data n_updates qf_state actor_state ent_coef_state key) \<noteq> []
        \<and> hd (fst (train_raising lib sac actor qf ent_coef gamma tau target_entropy
                     gradient_steps data n_updates qf_state actor_state ent_coef_state key))
          = Update_critic gamma actor_state qf_state ent_coef_state
              (micro_batch gradient_steps 0 (observations data))
              (micro_batch gradient_steps 0 (actions data))
              (micro_batch gradient_steps 0 (next_observations data))
              (micro_batch gradient_steps 0 (rewards data))
              (micro_batch gradient_steps 0 (dones data)) key
        \<and> list_all (forwards gamma tau)
            (fst (train_raising lib sac actor qf ent_coef gamma tau target_entropy
                    gradient_steps data n_updates qf_state actor_state ent_coef_state key))
        \<and> raised_by_last_call lib sac actor qf ent_coef
            (train_raising lib sac actor qf ent_coef gamma tau target_entropy
               gradient_steps data n_updates qf_state actor_state ent_coef_state key))
   \<and> (gradient_steps < 1 \<longrightarrow>
        train_raising lib sac actor qf ent_coef gamma tau target_entropy
          gradient_steps data n_updates qf_state actor_state ent_coef_state key
        = ([], Inl UnboundLocalError))"
proof (intro conjI impI)
  show "kw_tau (SAC_kwargs_of kw) = kw_tau kw" "kw_gamma (SAC_kwargs_of kw) = kw_gamma kw"
    "kw_gradient_steps (SAC_kwargs_of kw) = kw_gradient_steps kw"
    by (simp_all add: SAC_kwargs_of_def)
next
  assume "SAC_init (SAC_kwargs_of kw) = Inl e"
  then show "DroQ_SAC_init SAC_init kw = Inl e"
    by (simp add: DroQ_SAC_init_def)
next
  assume "SAC_init (SAC_kwargs_of kw) = Inr parent_self \<and> policy_kwargs parent_self = None"
  then show "DroQ_SAC_init SAC_init kw = Inl TypeError"
    by (simp add: DroQ_SAC_init_def)
next
  assume "SAC_init (SAC_kwargs_of kw) = Inr parent_self \<and> policy_kwargs parent_self = Some d"
  then show "DroQ_SAC_init SAC_init kw
        = Inr (parent_self\<lparr>policy_kwargs :=
                 Some (d(''dropout_rate'' \<mapsto> PyFloat (kw_dropout_rate kw),
                         ''layer_norm'' \<mapsto> PyBool (kw_layer_norm kw)))\<rparr>)"
    by (simp add: DroQ_SAC_init_def Let_def)
next
  assume h: "1 \<le> gradient_steps \<and> sliceable gradient_steps data"
  then have g: "1 \<le> gradient_steps" and d: "sliceable gradient_steps data" by simp_all
  note o = train_raising_outcome [OF g d]
  show "fst (train_raising lib sac actor qf ent_coef gamma tau target_entropy
               gradient_steps data n_updates qf_state actor_state ent_coef_state key) \<noteq> []"
    by (rule o(3))
  show "hd (fst (train_raising lib sac actor qf ent_coef gamma tau target_entropy
                     gradient_steps data n_updates qf_state actor_state ent_coef_state key))
          = Update_critic gamma actor_state qf_state ent_coef_state
              (micro_batch gradient_steps 0 (observations data))
              (micro_batch gradient_steps 0 (actions data))
              (micro_batch gradient_steps 0 (next_observations data))
              (micro_batch gradient_steps 0 (rewards data))
              (micro_batch gradient_steps 0 (dones data)) key"
    by (rule o(4))
  show "list_all (forwards gamma tau)
            (fst (train_raising lib sac actor qf ent_coef gamma tau target_entropy
                    gradient_steps data n_updates qf_state actor_state ent_coef_state key))"
    by (rule o(1))
  show "raised_by_last_call lib sac actor qf ent_coef
            (train_raising lib sac actor qf ent_coef gamma tau target_entropy
               gradient_steps data n_updates qf_state actor_state ent_coef_state key)"
    by (rule o(2))
next
  assume "gradient_steps < 1"
  then show "train_raising lib sac actor qf ent_coef gamma tau target_entropy
          gradient_steps data n_updates qf_state actor_state ent_coef_state key
        = ([], Inl UnboundLocalError)"
    by (rule train_raising_nonpositive)
qed

theorem train_no_rate_check_witness:
  "failing_SAC_init (SAC_kwargs_of bad_kwargs) = Inl (Raised ''parent'')
   \<and> DroQ_SAC_init failing_SAC_init bad_kwargs = Inl (Raised ''parent'')
   \<and> unset_SAC_init (SAC_kwargs_of bad_kwargs) = Inr \<lparr>policy_kwargs = None\<rparr>
   \<and> DroQ_SAC_init unset_SAC_init bad_kwargs = Inl TypeError
   \<and> storing_SAC_init (SAC_kwargs_of bad_kwargs)
     = Inr \<lparr>policy_kwargs = Some Map.empty, obj_tau = 2, obj_gamma = 5, obj_gradient_steps = 2\<rparr>
   \<and> DroQ_SAC_init storing_SAC_init bad_kwargs
     = Inr \<lparr>policy_kwargs = Some [''dropout_rate'' \<mapsto> PyFloat (1 / 100),
                                   ''layer_norm'' \<mapsto> PyBool True],
            obj_tau = 2, obj_gamma = 5, obj_gradient_steps = 2\<rparr>
   \<and> 1 \<le> (2::int) \<and> sliceable 2 stub_data
   \<and> train_raising stub_jax checking_sac stub_actor stub_qf stub_ent_coef 5 2 (- 1) 2 stub_data 0
       stub_qf_state stub_state stub_state 7
     = ([Update_critic 5 stub_state stub_qf_state stub_state [1, 2] [11, 12] [2, 3] [5, 6] [0, 0] 7,
         Soft_update 2 \<lparr>opt_step = 1, params = 1, opt_state = (), target_params = 0\<rparr>],
        Inl (Raised ''tau''))
   \<and> call_error stub_jax checking_sac stub_actor stub_qf stub_ent_coef
       (Soft_update 2 \<lparr>opt_step = 1, params = 1, opt_state = (), target_params = 0\<rparr>)
     = Some (Raised ''tau'')
   \<and> raised_by_last_call stub_jax checking_sac stub_actor stub_qf stub_ent_coef
       (train_raising stub_jax checking_sac stub_actor stub_qf stub_ent_coef 5 2 (- 1) 2 stub_data 0
          stub_qf_state stub_state stub_state 7)
   \<and> list_all (forwards 5 2)
       (fst (train_raising stub_jax checking_sac stub_actor stub_qf stub_ent_coef 5 2 (- 1) 2
               stub_data 0 stub_qf_state stub_state stub_state 7))
   \<and> (0::int) < 1
   \<and> train_raising stub_jax checking_sac stub_actor stub_qf stub_ent_coef 5 2 (- 1) 0 stub_data 0
       stub_qf_state stub_state stub_state 7 = ([], Inl UnboundLocalError)"
proof -
  have h1: "1 \<le> (2::int)" and h0: "(0::int) < 1" by simp_all
  have pf: "failing_SAC_init (SAC_kwargs_of bad_kwargs) = Inl (Raised ''parent'')"
    by (simp add: failing_SAC_init_def)
  have pu: "unset_SAC_init (SAC_kwargs_of bad_kwargs) = Inr \<lparr>policy_kwargs = None\<rparr>"
    by (simp add: unset_SAC_init_def)
  have ps: "storing_SAC_init (SAC_kwargs_of bad_kwargs)
     = Inr \<lparr>policy_kwargs = Some Map.empty, obj_tau = 2, obj_gamma = 5, obj_gradient_steps = 2\<rparr>"
    by (simp add: storing_SAC_init_def SAC_kwargs_of_def bad_kwargs_def DroQ_defaults_def)
  have dflt: "kw_dropout_rate bad_kwargs = 1 / 100" "kw_layer_norm bad_kwargs = True"
    by (simp_all add: bad_kwargs_def DroQ_defaults_def)
  have run: "train_raising stub_jax checking_sac stub_actor stub_qf stub_ent_coef 5 2 (- 1) 2
       stub_data 0 stub_qf_state stub_state stub_state 7
     = ([Update_critic 5 stub_state stub_qf_state stub_state [1, 2] [11, 12] [2, 3] [5, 6] [0, 0] 7,
         Soft_update 2 \<lparr>opt_step = 1, params = 1, opt_state = (), target_params = 0\<rparr>],
        Inl (Raised ''tau''))"
    by code_simp
  note f = train_no_rate_check [where SAC_init = failing_SAC_init and kw = bad_kwargs
      and e = "Raised ''parent''" and parent_self = "\<lparr>policy_kwargs = None\<rparr>"
      and gradient_steps = 2 and data = stub_data
      and actor = stub_actor and qf = stub_qf and lib = stub_jax and sac = checking_sac
      and ent_coef = stub_ent_coef and gamma = 5 and tau = 2 and target_entropy = "- 1"
      and n_updates = 0 and qf_state = stub_qf_state and actor_state = stub_state
      and ent_coef_state = stub_state and key = 7]
  note u = train_no_rate_check [where SAC_init = unset_SAC_init and kw = bad_kwargs
      and parent_self = "\<lparr>policy_kwargs = None\<rparr>"
      and gradient_steps = 0 and data = stub_data
      and actor = stub_actor and qf = stub_qf and lib = stub_jax and sac = checking_sac
      and ent_coef = stub_ent_coef and gamma = 5 and tau = 2 and target_entropy = "- 1"
      and n_updates = 0 and qf_state = stub_qf_state and actor_state = stub_state
      and ent_coef_state = stub_state and key = 7]
  note s = train_no_rate_check [where SAC_init = storing_SAC_init and kw = bad_kwargs
      and parent_self = "\<lparr>policy_kwargs = Some Map.empty, obj_tau = 2, obj_gamma = 5,
                          obj_gradient_steps = 2\<rparr>"
      and d = Map.empty
      and gradient_steps = 2 and data = stub_data
      and actor = stub_actor and qf = stub_qf and lib = stub_jax and sac = checking_sac
      and ent_coef = stub_ent_coef and gamma = 5 and tau = 2 and target_entropy = "- 1"
      and n_updates = 0 and qf_state = stub_qf_state and actor_state = stub_state
      and ent_coef_state = stub_state and key = 7]
  have c1: "DroQ_SAC_init failing_SAC_init bad_kwargs = Inl (Raised ''parent'')"
    using f pf by simp
  have c2: "DroQ_SAC_init unset_SAC_init bad_kwargs = Inl TypeError"
    using u pu by simp
  have c3: "DroQ_SAC_init storing_SAC_init bad_kwargs
     = Inr \<lparr>policy_kwargs = Some [''dropout_rate'' \<mapsto> PyFloat (1 / 100),
                                   ''layer_norm'' \<mapsto> PyBool True],
            obj_tau = 2, obj_gamma = 5, obj_gradient_steps = 2\<rparr>"
    using s ps by (simp add: dflt)
  have c4: "raised_by_last_call stub_jax checking_sac stub_actor stub_qf stub_ent_coef
       (train_raising stub_jax checking_sac stub_actor stub_qf stub_ent_coef 5 2 (- 1) 2 stub_data 0
          stub_qf_state stub_state stub_state 7)"
    and c5: "list_all (forwards 5 2)
       (fst (train_raising stub_jax checking_sac stub_actor stub_qf stub_ent_coef 5 2 (- 1) 2
               stub_data 0 stub_qf_state stub_state stub_state 7))"
    using f h1 stub_sliceable by simp_all
  have c6: "train_raising stub_jax checking_sac stub_actor stub_qf stub_ent_coef 5 2 (- 1) 0
       stub_data 0 stub_qf_state stub_state stub_state 7 = ([], Inl UnboundLocalError)"
    using u h0 by simp
  have c7: "call_error stub_jax checking_sac stub_actor stub_qf stub_ent_coef
       (Soft_update 2 \<lparr>opt_step = 1, params = 1, opt_state = (), target_params = 0\<rparr>)
     = Some (Raised ''tau'')"
    using c4 unfolding run by (simp add: raised_by_last_call_def)
  show ?thesis
    using pf pu ps c1 c2 c3 h1 h0 stub_sliceable run c4 c5 c6 c7 by simp
qed




text \<open>
  C8. Whenever \<^verbatim>\<open>update_actor\<close> returns, the critic state it returns is the one it was
  given; the actor state it returns is the given one after \<^verbatim>\<open>apply_gradients\<close> with the
  gradient of the actor loss; the entropy-coefficient state is not among the returned
  values, and it is only read, through its parameters.
\<close>

theorem update_actor_frame:
  assumes "update_actor lib actor qf ent_coef actor_state qf_state ent_coef_state obs key
           = Inr (actor_state', qf_state', actor_loss_value, key', entropy)"
  shows "qf_state' = qf_state
       \<and> actor_state' = apply_gradients lib actor_state
           (grad lib
              (actor_loss actor qf ent_coef qf_state ent_coef_state obs
                 (fst (snd (random_split3 lib key))) (snd (snd (random_split3 lib key))))
              (params actor_state))
       \<and> (params other = params ent_coef_state \<longrightarrow>
            update_actor lib actor qf ent_coef actor_state qf_state other obs key
            = update_actor lib actor qf ent_coef actor_state qf_state ent_coef_state obs key)"
proof -
  have same: "actor_loss actor qf ent_coef qf_state other obs dk nk
            = actor_loss actor qf ent_coef qf_state ent_coef_state obs dk nk"
    if "params other = params ent_coef_state" for dk nk
    using that by (intro ext) (simp add: actor_loss_def)
  have "qf_state' = qf_state"
    using assms by (auto simp: update_actor_def Let_def split: prod.splits sum.splits)
  moreover have "actor_state' = apply_gradients lib actor_state
           (grad lib
              (actor_loss actor qf ent_coef qf_state ent_coef_state obs
                 (fst (snd (random_split3 lib key))) (snd (snd (random_split3 lib key))))
              (params actor_state))"
    using assms by (auto simp: update_actor_def Let_def split: prod.splits sum.splits)
  moreover have "params other = params ent_coef_state \<longrightarrow>
            update_actor lib actor qf ent_coef actor_state qf_state other obs key
            = update_actor lib actor qf ent_coef actor_state qf_state ent_coef_state obs key"
    using same by (simp add: update_actor_def)
  ultimately show ?thesis by blast
qed

theorem update_actor_frame_witness:
  "update_actor stub_jax stub_actor stub_qf stub_ent_coef stub_state stub_qf_state stub_state
     [3, 4] 67
   = Inr (\<lparr>opt_step = 1, params = 1, opt_state = ()\<rparr>, stub_qf_state, - (25 / 4), 202, 7 / 2)
   \<and> \<lparr>opt_step = 1, params = 1, opt_state = ()\<rparr>
     = apply_gradients stub_jax stub_state
         (grad stub_jax
            (actor_loss stub_actor stub_qf stub_ent_coef stub_qf_state stub_state [3, 4]
               (fst (snd (random_split3 stub_jax 67))) (snd (snd (random_split3 stub_jax 67))))
            (params stub_state))
   \<and> params (stub_state\<lparr>opt_step := 5\<rparr>) = params stub_state
   \<and> update_actor stub_jax stub_actor stub_qf stub_ent_coef stub_state stub_qf_state
       (stub_state\<lparr>opt_step := 5\<rparr>) [3, 4] 67
     = update_actor stub_jax stub_actor stub_qf stub_ent_coef stub_state stub_qf_state stub_state
         [3, 4] 67"
proof -
  have run: "update_actor stub_jax stub_actor stub_qf stub_ent_coef stub_state stub_qf_state
      stub_state [3, 4] 67
    = Inr (\<lparr>opt_step = 1, params = 1, opt_state = ()\<rparr>, stub_qf_state, - (25 / 4), 202, 7 / 2)"
    by code_simp
  have p: "params (stub_state\<lparr>opt_step := 5\<rparr>) = params stub_state" by simp
  show ?thesis
    using run p update_actor_frame [OF run, of "stub_state\<lparr>opt_step := 5\<rparr>"] by simp
qed

text \<open>
  C9. For \<open>gradient_steps = n \<ge> 1\<close>, divisible lengths and well-shaped networks,
  \<^verbatim>\<open>_train\<close> returns a tuple whose critic loss and temperature value are the two
  diagnostics returned by the last call of \<^verbatim>\<open>update_critic\<close> alone. That call is the one
  on the micro-batch \<open>n - 1\<close>, and it received the entropy-coefficient state that was passed
  to \<^verbatim>\<open>_train\<close>; the temperature update is the last call of the invocation, and its
  result is the returned entropy-coefficient state.
\<close>

theorem train_diagnostics_last_cycle:
  assumes "1 \<le> gradient_steps" and "sliceable gradient_steps data" and "well_shaped actor qf"
  shows "\<exists>r h.
      snd (train lib sac actor qf ent_coef gamma tau target_entropy
             gradient_steps data n_updates qf_state actor_state ent_coef_state key) = Inr r
    \<and> map_option (fst \<circ> snd)
        (critic_result sac actor qf ent_coef
          (last (critic_calls
            (fst (train lib sac actor qf ent_coef gamma tau target_entropy
                    gradient_steps data n_updates qf_state actor_state ent_coef_state key)))))
      = Some (result_qf_loss r, result_ent_coef_value r)
    \<and> critic_ent_coef_state
        (last (critic_calls
          (fst (train lib sac actor qf ent_coef gamma tau target_entropy
                  gradient_steps data n_updates qf_state actor_state ent_coef_state key))))
      = Some ent_coef_state
    \<and> last (critic_batches
          (fst (train lib sac actor qf ent_coef gamma tau target_entropy
                  gradient_steps data n_updates qf_state actor_state ent_coef_state key)))
      = (micro_batch gradient_steps (nat gradient_steps - 1) (observations data),
         micro_batch gradient_steps (nat gradient_steps - 1) (actions data),
         micro_batch gradient_steps (nat gradient_steps - 1) (next_observations data),
         micro_batch gradient_steps (nat gradient_steps - 1) (rewards data),
         micro_batch gradient_steps (nat gradient_steps - 1) (dones data))
    \<and> last (fst (train lib sac actor qf ent_coef gamma tau target_entropy
                   gradient_steps data n_updates qf_state actor_state ent_coef_state key))
      = Update_temperature target_entropy ent_coef_state h
    \<and> result_ent_coef_state r
      = fst (update_temperature sac ent_coef target_entropy ent_coef_state h)"
proof -
  let ?st0 = "\<lparr>l_n_updates = n_updates, l_qf_state = qf_state, l_key = key,
                l_slice = None, l_qf_loss_value = None, l_ent_coef_value = None\<rparr>"
  let ?fin = "loop_state sac actor qf ent_coef gamma tau gradient_steps data actor_state
                ent_coef_state ?st0 (nat gradient_steps)"
  obtain k where k: "nat gradient_steps = Suc k"
    using assms(1) by (cases "nat gradient_steps") auto
  obtain actor_state' al ent where
    "update_actor lib actor qf ent_coef actor_state (l_qf_state ?fin) ent_coef_state
       (micro_batch gradient_steps (nat gradient_steps - 1) (observations data)) (l_key ?fin)
     = Inr (actor_state', l_qf_state ?fin, al, fst (random_split3 lib (l_key ?fin)), ent)"
    using update_actor_ok [OF assms(3)] by blast
  then show ?thesis
    unfolding train_closed [OF assms(1,2)] Let_def
    by (simp add: k critic_calls_append critic_calls_loop_log_Suc critic_calls_simps
        critic_batches_append critic_batches_loop_log critic_call_def
        result_qf_loss_def result_ent_coef_value_def result_ent_coef_state_def
        case_prod_beta del: loop_state.simps)
qed

theorem train_diagnostics_last_cycle_witness:
  "1 \<le> (2::int) \<and> sliceable 2 stub_data \<and> well_shaped stub_actor stub_qf \<and>
   (\<exists>r h.
      snd (train stub_jax stub_sac stub_actor stub_qf stub_ent_coef (99 / 100) (5 / 1000)
             (- 1) 2 stub_data 0 stub_qf_state stub_state stub_state 7) = Inr r
    \<and> map_option (fst \<circ> snd)
        (critic_result stub_sac stub_actor stub_qf stub_ent_coef
          (last (critic_calls
            (fst (train stub_jax stub_sac stub_actor stub_qf stub_ent_coef (99 / 100) (5 / 1000)
                    (- 1) 2 stub_data 0 stub_qf_state stub_state stub_state 7)))))
      = Some (result_qf_loss r, result_ent_coef_value r)
    \<and> critic_ent_coef_state
        (last (critic_calls
          (fst (train stub_jax stub_sac stub_actor stub_qf stub_ent_coef (99 / 100) (5 / 1000)
                  (- 1) 2 stub_data 0 stub_qf_state stub_state stub_state 7))))
      = Some stub_state
    \<and> last (critic_batches
          (fst (train stub_jax stub_sac stub_actor stub_qf stub_ent_coef (99 / 100) (5 / 1000)
                  (- 1) 2 stub_data 0 stub_qf_state stub_state stub_state 7)))
      = ([3, 4], [13, 14], [4, 5], [7, 8], [0, 1])
    \<and> last (fst (train stub_jax stub_sac stub_actor stub_qf stub_ent_coef (99 / 100) (5 / 1000)
                   (- 1) 2 stub_data 0 stub_qf_state stub_state stub_state 7))
      = Update_temperature (- 1) stub_state h
    \<and> result_ent_coef_state r
      = fst (update_temperature stub_sac stub_ent_coef (- 1) stub_state h))"
proof -
  have h1: "1 \<le> (2::int)" by simp
  have mb: "(micro_batch 2 (nat 2 - 1) (observations stub_data),
         micro_batch 2 (nat 2 - 1) (actions stub_data),
         micro_batch 2 (nat 2 - 1) (next_observations stub_data),
         micro_batch 2 (nat 2 - 1) (rewards stub_data),
         micro_batch 2 (nat 2 - 1) (dones stub_data))
        = ([3, 4], [13, 14], [4, 5], [7, 8], [0, 1])"
    by code_simp
  show ?thesis
    using h1 stub_sliceable stub_well_shaped
      train_diagnostics_last_cycle [OF h1 stub_sliceable stub_well_shaped,
        where lib = stub_jax and sac = stub_sac and ent_coef = stub_ent_coef
          and gamma = "99 / 100" and tau = "5 / 1000" and target_entropy = "- 1"
          and n_updates = 0 and qf_state = stub_qf_state and actor_state = stub_state
          and ent_coef_state = stub_state and key = 7]
    unfolding mb by simp
qed

text \<open>
  C10. When \<^verbatim>\<open>DroQ_SAC.__init__\<close> returns, \<^verbatim>\<open>self.policy_kwargs\<close> is the dictionary that the
  parent constructor left there with two entries written over it: \<^verbatim>\<open>"dropout_rate"\<close> and
  \<^verbatim>\<open>"layer_norm"\<close> hold the constructor arguments of these names, whatever the dictionary
  held under these keys before, and every other key is unchanged. The defaults of the two
  arguments are \<open>0.01\<close> and \<open>True\<close>.
\<close>

theorem init_policy_kwargs:
  assumes "DroQ_SAC_init SAC_init kw = Inr self"
  shows "\<exists>parent_self d d'.
           SAC_init (SAC_kwargs_of kw) = Inr parent_self
         \<and> policy_kwargs parent_self = Some d
         \<and> policy_kwargs self = Some d'
         \<and> d' ''dropout_rate'' = Some (PyFloat (kw_dropout_rate kw))
         \<and> d' ''layer_norm'' = Some (PyBool (kw_layer_norm kw))
         \<and> (\<forall>k. k \<noteq> ''dropout_rate'' \<longrightarrow> k \<noteq> ''layer_norm'' \<longrightarrow> d' k = d k)
         \<and> kw_dropout_rate (DroQ_defaults policy env :: ('a, 'b, 'c) DroQ_kwargs) = 1 / 100
         \<and> kw_layer_norm (DroQ_defaults policy env :: ('a, 'b, 'c) DroQ_kwargs) = True"
  using assms
  by (auto simp: DroQ_SAC_init_def DroQ_defaults_def Let_def split: sum.splits option.splits)

theorem init_policy_kwargs_witness:
  "DroQ_SAC_init stub_SAC_init stub_kwargs
   = Inr \<lparr>policy_kwargs = Some (stub_policy_kwargs(''dropout_rate'' \<mapsto> PyFloat (1 / 100),
                                                     ''layer_norm'' \<mapsto> PyBool True))\<rparr>
   \<and> stub_policy_kwargs ''dropout_rate'' = Some (PyFloat (1 / 2))
   \<and> stub_policy_kwargs ''layer_norm'' = Some (PyBool False)
   \<and> (\<exists>d'. policy_kwargs \<lparr>policy_kwargs = Some (stub_policy_kwargs(''dropout_rate'' \<mapsto> PyFloat (1 / 100),
                                                     ''layer_norm'' \<mapsto> PyBool True))\<rparr> = Some d'
         \<and> d' ''dropout_rate'' = Some (PyFloat (1 / 100))
         \<and> d' ''layer_norm'' = Some (PyBool True))"
proof -
  have run: "DroQ_SAC_init stub_SAC_init stub_kwargs
   = Inr \<lparr>policy_kwargs = Some (stub_policy_kwargs(''dropout_rate'' \<mapsto> PyFloat (1 / 100),
                                                     ''layer_norm'' \<mapsto> PyBool True))\<rparr>"
    by (simp add: DroQ_SAC_init_def stub_SAC_init_def stub_kwargs_def DroQ_defaults_def
        SAC_kwargs_of_def Let_def)
  have d: "kw_dropout_rate stub_kwargs = 1 / 100" "kw_layer_norm stub_kwargs = True"
    by (simp_all add: stub_kwargs_def DroQ_defaults_def)
  have s: "stub_policy_kwargs ''dropout_rate'' = Some (PyFloat (1 / 2))"
    "stub_policy_kwargs ''layer_norm'' = Some (PyBool False)"
    by (simp_all add: stub_policy_kwargs_def)
  show ?thesis
    using run s init_policy_kwargs [OF run] by (simp add: d)
qed

end
